theory Spec2Isabelle
  imports Complex_Main
begin

section \<open>The ledger upload pipeline of \<^verbatim>\<open>netlify/functions/api.py\<close>\<close>

text \<open>
  The handler \<^verbatim>\<open>upload_csv\<close> is one straight-line function. Each of its stages is a
  definition below, in the order of the source, and \<open>upload_csv\<close> composes them.

  Conventions of the embedding.
  \<^item> A Python \<^verbatim>\<open>str\<close> is a \<open>string\<close>; a \<open>char\<close> stands for a code point below 256.
  \<^item> Amounts are \<open>rat\<close>: a float64 value is the rational number it denotes, so the
    comparisons of the source are exact. Where the balance check rounds, the model rounds:
    the sum of a column is a parameter (the order in which pandas adds is its own), the
    difference of the two totals is rounded to the nearest float64 (\<open>double_of\<close>), and
    the literal \<^verbatim>\<open>0.01\<close> is the float64 nearest to 1/100. The linear interpolation of
    the quantile is taken exactly. Infinities, overflow and subnormal numbers are outside
    the model.
  \<^item> A raised exception is a value \<open>Inl e\<close>. \<open>HTTPException code detail\<close> is the
    client error the handler raises itself; \<open>Unhandled name\<close> is an exception no
    handler of the source catches.
  \<^item> The libraries the handler calls are parameters, collected in the record \<open>env\<close>:
    \<^verbatim>\<open>pd.read_csv\<close>, \<^verbatim>\<open>pd.to_numeric\<close>, \<^verbatim>\<open>Series.sum\<close>,
    \<^verbatim>\<open>IsolationForest.fit_predict\<close>, \<^verbatim>\<open>os.getenv\<close> and \<^verbatim>\<open>generate_content\<close>.
  \<^item> A parsed table is a \<open>frame\<close>: its column labels and its rows of cells, a cell being
    \<open>None\<close> where pandas holds a missing value. Cells are kept as the text of the file;
    the column types pandas infers are not modelled.
\<close>

subsection \<open>Errors\<close>

datatype error = HTTPException nat string | Unhandled string

subsection \<open>Strings\<close>

definition is_space :: "char \<Rightarrow> bool" where
  \<comment> \<open>\<^verbatim>\<open>str.isspace\<close> on the code points below 256\<close>
  "is_space c =
     (let n = (of_char c :: nat)
      in (9 \<le> n \<and> n \<le> 13) \<or> (28 \<le> n \<and> n \<le> 32) \<or> n = 133 \<or> n = 160)"

definition lower_char :: "char \<Rightarrow> char" where
  "lower_char c =
     (let n = (of_char c :: nat)
      in if (65 \<le> n \<and> n \<le> 90) \<or> (192 \<le> n \<and> n \<le> 222 \<and> n \<noteq> 215)
         then char_of (n + 32) else c)"

definition lower :: "string \<Rightarrow> string" where
  "lower s = map lower_char s"

definition strip :: "string \<Rightarrow> string" where
  "strip s = rev (dropWhile is_space (rev (dropWhile is_space s)))"

definition startswith :: "string \<Rightarrow> string \<Rightarrow> bool" where
  "startswith s p = (take (length p) s = p)"

definition endswith :: "string \<Rightarrow> string \<Rightarrow> bool" where
  "endswith s p = (length p \<le> length s \<and> drop (length s - length p) s = p)"

fun contains :: "string \<Rightarrow> string \<Rightarrow> bool" where
  "contains [] p = (p = [])"
| "contains (c # s) p = (startswith (c # s) p \<or> contains s p)"

fun join :: "string \<Rightarrow> string list \<Rightarrow> string" where
  "join sep [] = []"
| "join sep [x] = x"
| "join sep (x # y # ys) = x @ sep @ join sep (y # ys)"

fun split_char :: "char \<Rightarrow> string \<Rightarrow> string list" where
  \<comment> \<open>\<^verbatim>\<open>s.split(c)\<close> for a separator of one character\<close>
  "split_char c [] = [[]]"
| "split_char c (x # xs) =
     (if x = c then [] # split_char c xs
      else (case split_char c xs of
              [] \<Rightarrow> [[x]]
            | l # ls \<Rightarrow> (x # l) # ls))"

subsection \<open>Tables\<close>

type_synonym cell = "string option"

record frame =
  columns :: "string list"
  rows :: "cell list list"

definition astype_str :: "cell \<Rightarrow> string" where
  "astype_str c = (case c of None \<Rightarrow> ''nan'' | Some s \<Rightarrow> s)"

definition positions :: "string list \<Rightarrow> string \<Rightarrow> nat list" where
  "positions cols c = filter (\<lambda>i. cols ! i = c) [0..<length cols]"

definition select_columns :: "frame \<Rightarrow> string list \<Rightarrow> frame" where
  \<comment> \<open>\<^verbatim>\<open>df[labels]\<close>: every column carrying one of the labels, in the order of the labels\<close>
  "select_columns df labels =
     (let idx = concat (map (positions (columns df)) labels)
      in \<lparr>columns = map (\<lambda>i. columns df ! i) idx,
          rows = map (\<lambda>r. map (\<lambda>i. r ! i) idx) (rows df)\<rparr>)"

definition column_of :: "frame \<Rightarrow> string \<Rightarrow> error + cell list" where
  \<comment> \<open>\<^verbatim>\<open>df[col]\<close> used as a Series: a label carried by several columns gives a DataFrame,
      which has no \<^verbatim>\<open>.str\<close> accessor\<close>
  "column_of df col =
     (case positions (columns df) col of
        [] \<Rightarrow> Inl (Unhandled ''KeyError'')
      | [i] \<Rightarrow> Inr (map (\<lambda>r. r ! i) (rows df))
      | _ \<Rightarrow> Inl (Unhandled ''AttributeError''))"

subsection \<open>Schema normalisation (lines 53 to 62)\<close>

definition expected_columns :: "string list" where
  "expected_columns = [''items'', ''debit'', ''credit'']"

definition normalize_columns :: "frame \<Rightarrow> frame" where
  "normalize_columns df = df\<lparr>columns := map (\<lambda>c. strip (lower c)) (columns df)\<rparr>"

definition select_required :: "frame \<Rightarrow> error + frame" where
  "select_required df0 =
     (let df = normalize_columns df0;
          available_columns = filter (\<lambda>col. col \<in> set (columns df)) expected_columns
      in if length available_columns \<noteq> 3
         then Inl (HTTPException 400
                (''CSV must have columns: '' @ join '', '' expected_columns))
         else Inr (select_columns df expected_columns))"

subsection \<open>Row filter (line 65)\<close>

definition is_footer :: "string \<Rightarrow> bool" where
  \<comment> \<open>the pattern \<^verbatim>\<open>Accrual Basis|Total\<close>, searched without regard to case\<close>
  "is_footer s = (contains (lower s) ''accrual basis'' \<or> contains (lower s) ''total'')"

definition keep_item :: "cell \<Rightarrow> bool" where
  "keep_item c = (case c of None \<Rightarrow> False | Some s \<Rightarrow> \<not> is_footer s)"

definition filter_rows :: "frame \<Rightarrow> error + frame" where
  "filter_rows df =
     (case column_of df ''items'' of
        Inl e \<Rightarrow> Inl e
      | Inr its \<Rightarrow>
          Inr (df\<lparr>rows := map snd (filter (\<lambda>(it, r). keep_item it) (zip its (rows df)))\<rparr>))"

subsection \<open>Numeric cleaning (lines 67 to 79)\<close>

record ledger_row =
  items :: cell
  debit :: rat
  credit :: rat

definition clean_text :: "cell \<Rightarrow> string" where
  "clean_text c =
     (let s = strip (filter (\<lambda>ch. ch \<noteq> CHR '','') (astype_str c))
      in if s = '''' then ''0'' else if s = ''nan'' then ''0'' else s)"

definition clean_column ::
  "(string \<Rightarrow> rat option) \<Rightarrow> string \<Rightarrow> cell list \<Rightarrow> error + rat list" where
  "clean_column to_numeric col cells =
     (let vals = map (\<lambda>c. to_numeric (clean_text c)) cells
      in if list_ex (\<lambda>v. v = None) vals
         then Inl (HTTPException 400 (''Invalid numeric values in '' @ col))
         else Inr (List.map_filter id vals))"

fun zip_rows :: "cell list \<Rightarrow> rat list \<Rightarrow> rat list \<Rightarrow> ledger_row list" where
  "zip_rows (i # is) (d # ds) (c # cs) =
     \<lparr>items = i, debit = d, credit = c\<rparr> # zip_rows is ds cs"
| "zip_rows _ _ _ = []"

definition clean_numeric ::
  "(string \<Rightarrow> rat option) \<Rightarrow> frame \<Rightarrow> error + ledger_row list" where
  "clean_numeric to_numeric df =
     (case column_of df ''debit'' of
        Inl e \<Rightarrow> Inl e
      | Inr dcells \<Rightarrow>
     (case clean_column to_numeric ''debit'' dcells of
        Inl e \<Rightarrow> Inl e
      | Inr ds \<Rightarrow>
     (case column_of df ''credit'' of
        Inl e \<Rightarrow> Inl e
      | Inr ccells \<Rightarrow>
     (case clean_column to_numeric ''credit'' ccells of
        Inl e \<Rightarrow> Inl e
      | Inr cs \<Rightarrow>
     (case column_of df ''items'' of
        Inl e \<Rightarrow> Inl e
      | Inr its \<Rightarrow> Inr (zip_rows its ds cs))))))"

subsection \<open>Balance check (lines 81 to 89)\<close>

fun digits :: "nat \<Rightarrow> string" where
  "digits n =
     (if n < 10 then [char_of (48 + n)]
      else digits (n div 10) @ [char_of (48 + n mod 10)])"

declare digits.simps [simp del]

definition round_half_even :: "rat \<Rightarrow> int" where
  "round_half_even q =
     (let f = \<lfloor>q\<rfloor>; d = q - of_int f
      in if d < 1 / 2 then f
         else if 1 / 2 < d then f + 1
         else if even f then f else f + 1)"

definition format_2f :: "rat \<Rightarrow> string" where
  \<comment> \<open>the format \<^verbatim>\<open>{x:.2f}\<close> of the float64 whose value is \<open>x\<close>: Python rounds that
      value to two decimals, ties to even\<close>
  "format_2f x =
     (let n = nat (round_half_even (\<bar>x\<bar> * 100))
      in (if x < 0 then ''-'' else '''') @ digits (n div 100) @ ''.'' @
         [char_of (48 + n div 10 mod 10), char_of (48 + n mod 10)])"

text \<open>
  Rounding to float64, to nearest and ties to even: \<open>exponent a\<close> is the \<open>k\<close> with
  \<open>2 ^ k \<le> a < 2 ^ (k + 1)\<close>, and \<open>double_of x\<close> keeps 53 significant bits of \<open>x\<close>.
\<close>

function ilog2 :: "int \<Rightarrow> nat" where
  "ilog2 n = (if n < 2 then 0 else Suc (ilog2 (n div 2)))"
  by pat_completeness auto
termination
  by (relation "measure nat") auto

declare ilog2.simps [simp del]

definition pow2 :: "int \<Rightarrow> rat" where
  "pow2 k = (if 0 \<le> k then 2 ^ nat k else 1 / 2 ^ nat (- k))"

definition exponent :: "rat \<Rightarrow> int" where
  "exponent a =
     (if 1 \<le> a then int (ilog2 \<lfloor>a\<rfloor>)
      else let j = ilog2 \<lfloor>1 / a\<rfloor>
           in if 1 / a \<le> 2 ^ j then - int j else - int j - 1)"

definition double_of :: "rat \<Rightarrow> rat" where
  "double_of x =
     (if x = 0 then 0
      else let q = exponent \<bar>x\<bar> - 52;
               m = round_half_even (\<bar>x\<bar> / pow2 q)
           in sgn x * of_int m * pow2 q)"

definition total_debit :: "(rat list \<Rightarrow> rat) \<Rightarrow> ledger_row list \<Rightarrow> rat" where
  \<comment> \<open>\<^verbatim>\<open>df["debit"].sum()\<close>\<close>
  "total_debit series_sum ledger = series_sum (map debit ledger)"

definition total_credit :: "(rat list \<Rightarrow> rat) \<Rightarrow> ledger_row list \<Rightarrow> rat" where
  "total_credit series_sum ledger = series_sum (map credit ledger)"

definition is_balanced :: "(rat list \<Rightarrow> rat) \<Rightarrow> ledger_row list \<Rightarrow> bool" where
  \<comment> \<open>\<^verbatim>\<open>abs(total_debit - total_credit) < 0.01\<close> on float64 totals\<close>
  "is_balanced series_sum ledger =
     (\<bar>double_of (total_debit series_sum ledger - total_credit series_sum ledger)\<bar>
        < double_of (1 / 100))"

definition balance_message :: "(rat list \<Rightarrow> rat) \<Rightarrow> ledger_row list \<Rightarrow> string" where
  "balance_message series_sum ledger =
     (if is_balanced series_sum ledger
      then ''Balanced: Total Debit = '' @ format_2f (total_debit series_sum ledger) @
           '', Total Credit = '' @ format_2f (total_credit series_sum ledger)
      else ''Unbalanced: Total Debit = '' @ format_2f (total_debit series_sum ledger) @
           '', Total Credit = '' @ format_2f (total_credit series_sum ledger))"

subsection \<open>Anomaly detection (lines 91 to 112)\<close>

definition contamination :: "nat \<Rightarrow> rat" where
  "contamination n = (if 0 < n then min (5 / 100) (10 / of_nat n) else 5 / 100)"

definition quantile :: "rat \<Rightarrow> rat list \<Rightarrow> rat option" where
  \<comment> \<open>the quantile of one column with linear interpolation; \<open>None\<close> is the NaN of an
      empty column\<close>
  "quantile q xs =
     (if xs = [] then None
      else let s = sort xs;
               h = of_nat (length xs - 1) * q;
               lo = nat \<lfloor>h\<rfloor>;
               hi = min (lo + 1) (length xs - 1)
           in Some (s ! lo + (h - of_nat lo) * (s ! hi - s ! lo)))"

definition series_max :: "rat option list \<Rightarrow> rat option" where
  \<comment> \<open>\<^verbatim>\<open>Series.max()\<close>: missing values are skipped\<close>
  "series_max xs =
     (case List.map_filter id xs of [] \<Rightarrow> None | v # vs \<Rightarrow> Some (fold max vs v))"

definition amount_threshold :: "ledger_row list \<Rightarrow> rat" where
  \<comment> \<open>\<^verbatim>\<open>max(10000, df[["debit", "credit"]].quantile(0.95).max())\<close>; Python's \<^verbatim>\<open>max\<close>
      keeps its first argument unless the second is greater\<close>
  "amount_threshold ledger =
     (case series_max [quantile (95 / 100) (map debit ledger),
                       quantile (95 / 100) (map credit ledger)] of
        None \<Rightarrow> 10000
      | Some v \<Rightarrow> if 10000 < v then v else 10000)"

definition imbalance_threshold :: rat where
  "imbalance_threshold = 5000"

definition is_significant_anomaly :: "rat \<Rightarrow> int \<Rightarrow> ledger_row \<Rightarrow> bool" where
  "is_significant_anomaly amount anomaly_score r =
     (anomaly_score = - 1 \<and>
      (amount < debit r \<or> amount < credit r \<or>
       (imbalance_threshold < debit r \<and> credit r = 0) \<or>
       (imbalance_threshold < credit r \<and> debit r = 0)))"

definition significant :: "rat \<Rightarrow> ledger_row list \<Rightarrow> int list \<Rightarrow> ledger_row list" where
  "significant amount ledger scores =
     map fst (filter (\<lambda>(r, s). is_significant_anomaly amount s r) (zip ledger scores))"

definition detect ::
  "(rat \<Rightarrow> (rat \<times> rat) list \<Rightarrow> string + int list) \<Rightarrow> ledger_row list
     \<Rightarrow> error + ledger_row list" where
  "detect model ledger =
     (case model (contamination (length ledger))
             (map (\<lambda>r. (debit r, credit r)) ledger) of
        Inl e \<Rightarrow> Inl (Unhandled e)
      | Inr scores \<Rightarrow>
          if length scores \<noteq> length ledger then Inl (Unhandled ''ValueError'')
          else Inr (significant (amount_threshold ledger) ledger scores))"

definition anomaly_summary :: "ledger_row list \<Rightarrow> string" where
  "anomaly_summary anoms =
     (if anoms \<noteq> [] then digits (length anoms) @ '' significant anomalies detected''
      else ''No significant anomalies detected'')"

subsection \<open>Recommendations (lines 114 to 139)\<close>

definition format_recommendations :: "string \<Rightarrow> string" where
  "format_recommendations text =
     (let recommendations = strip text
      in if \<not> startswith recommendations ''- ''
         then ''- '' @ join [CHR 0x0A, CHR ''-'', CHR '' '']
                         (split_char (CHR 0x0A) recommendations)
         else recommendations)"

definition recommend ::
  "string option \<Rightarrow> (ledger_row list \<Rightarrow> string + string) \<Rightarrow> ledger_row list \<Rightarrow> string"
  where
  \<comment> \<open>the prompt is a fixed template around the anomaly list, so the service is a
      function of that list; \<open>Inl msg\<close> is an exception raised inside the \<^verbatim>\<open>try\<close>\<close>
  "recommend gemini_api_key service anoms =
     (case gemini_api_key of
        None \<Rightarrow> ''Error: GEMINI_API_KEY not set''
      | Some k \<Rightarrow>
          if k = [] then ''Error: GEMINI_API_KEY not set''
          else (case service anoms of
                  Inl msg \<Rightarrow> ''AI error: '' @ msg
                | Inr text \<Rightarrow> format_recommendations text))"

subsection \<open>The handler (lines 40 to 146)\<close>

record env =
  read_csv :: "string \<Rightarrow> frame option"
  to_numeric :: "string \<Rightarrow> rat option"
  series_sum :: "rat list \<Rightarrow> rat"
  fit_predict :: "rat \<Rightarrow> (rat \<times> rat) list \<Rightarrow> string + int list"
  getenv_key :: "string option"
  generate_content :: "ledger_row list \<Rightarrow> string + string"

record response =
  balance_status :: string
  anomalies :: "ledger_row list"
  recommendations :: string

definition clean_table :: "env \<Rightarrow> string \<Rightarrow> string \<Rightarrow> error + ledger_row list" where
  \<comment> \<open>lines 41 to 79: everything up to the cleaned ledger table\<close>
  "clean_table e filename content =
     (if \<not> endswith filename ''.csv''
      then Inl (HTTPException 400 ''Only CSV files are allowed'')
      else (case read_csv e content of
              None \<Rightarrow> Inl (HTTPException 400 ''Invalid CSV format'')
            | Some df0 \<Rightarrow>
           (case select_required df0 of
              Inl err \<Rightarrow> Inl err
            | Inr df1 \<Rightarrow>
           (case filter_rows df1 of
              Inl err \<Rightarrow> Inl err
            | Inr df2 \<Rightarrow> clean_numeric (to_numeric e) df2))))"

definition upload_csv :: "env \<Rightarrow> string \<Rightarrow> string \<Rightarrow> error + response" where
  "upload_csv e filename content =
     (case clean_table e filename content of
        Inl err \<Rightarrow> Inl err
      | Inr ledger \<Rightarrow>
     (case detect (fit_predict e) ledger of
        Inl err \<Rightarrow> Inl err
      | Inr anoms \<Rightarrow>
          Inr \<lparr>balance_status = balance_message (series_sum e) ledger,
               anomalies = anoms,
               recommendations = recommend (getenv_key e) (generate_content e) anoms\<rparr>))"

subsection \<open>Instances of the library parameters for concrete runs\<close>

text \<open>
  The theorems below hold for every instance of the library parameters. To run the
  handler on a concrete file the parameters need values; these are the ones used.
\<close>

definition digit_val :: "char \<Rightarrow> nat option" where
  "digit_val c =
     (let n = (of_char c :: nat) in if 48 \<le> n \<and> n \<le> 57 then Some (n - 48) else None)"

fun nat_of_digits :: "nat \<Rightarrow> string \<Rightarrow> nat option" where
  "nat_of_digits acc [] = Some acc"
| "nat_of_digits acc (c # cs) =
     (case digit_val c of None \<Rightarrow> None | Some d \<Rightarrow> nat_of_digits (10 * acc + d) cs)"

definition unsigned_literal :: "string \<Rightarrow> rat option" where
  "unsigned_literal s =
     (let ip = takeWhile (\<lambda>c. c \<noteq> CHR ''.'') s;
          fp = drop 1 (dropWhile (\<lambda>c. c \<noteq> CHR ''.'') s)
      in if ip = [] \<and> fp = [] then None
         else (case (nat_of_digits 0 ip, nat_of_digits 0 fp) of
                 (Some a, Some b) \<Rightarrow> Some (of_nat a + of_nat b / 10 ^ length fp)
               | _ \<Rightarrow> None))"

definition decimal_literal :: "string \<Rightarrow> rat option" where
  \<comment> \<open>the exact value of a text in plain decimal notation: an optional sign, digits, an
      optional point\<close>
  "decimal_literal s =
     (case s of
        [] \<Rightarrow> None
      | c # cs \<Rightarrow>
          if c = CHR ''-'' then map_option uminus (unsigned_literal cs)
          else if c = CHR ''+'' then unsigned_literal cs
          else unsigned_literal s)"

definition float_literal :: "string \<Rightarrow> rat option" where
  \<comment> \<open>\<^verbatim>\<open>pd.to_numeric\<close> on plain decimal notation: the float64 nearest to the value of
      the text; what it does on other notations is not used\<close>
  "float_literal s = map_option double_of (decimal_literal s)"

definition sequential_sum :: "rat list \<Rightarrow> rat" where
  \<comment> \<open>float64 addition from left to right, which is how a sum of fewer than eight
      numbers is formed\<close>
  "sequential_sum xs = foldl (\<lambda>acc x. double_of (acc + x)) 0 xs"

definition magnitude_model :: "rat \<Rightarrow> (rat \<times> rat) list \<Rightarrow> string + int list" where
  \<comment> \<open>a stand-in for the outlier model: like the estimator of scikit-learn it raises on
      an empty sample; which rows it flags is its own choice\<close>
  "magnitude_model c xs =
     (if xs = [] then Inl ''ValueError''
      else Inr (map (\<lambda>(d, cr). if 1000 < max d cr then - 1 else 1) xs))"

subsection \<open>The amount threshold and the balance check as the specification words them\<close>


definition spec_is_balanced :: "rat list \<Rightarrow> rat list \<Rightarrow> bool" where
  \<comment> \<open>balanced iff the absolute difference of the sum of the debits and the sum of the
      credits is below 0.01, on the decimal amounts\<close>
  "spec_is_balanced debits credits = (\<bar>sum_list debits - sum_list credits\<bar> < 1 / 100)"

subsection \<open>Concrete tables\<close>

definition demo_ledger :: "ledger_row list" where
  "demo_ledger =
     [\<lparr>items = Some ''Land purchase'', debit = 15000, credit = 0\<rparr>,
      \<lparr>items = Some ''Rent'', debit = 800, credit = 0\<rparr>,
      \<lparr>items = Some ''Sales'', debit = 50, credit = 12000\<rparr>,
      \<lparr>items = Some ''Bank'', debit = 0, credit = 3800\<rparr>]"

definition two_sided_ledger :: "ledger_row list" where
  "two_sided_ledger =
     [\<lparr>items = Some ''Land'', debit = 20000, credit = 0\<rparr>,
      \<lparr>items = Some ''Loan'', debit = 0, credit = 20000\<rparr>]"

definition demo_frame :: frame where
  "demo_frame =
     \<lparr>columns = ['' Items'', ''Debit'', ''Memo'', ''CREDIT ''],
      rows = [[Some ''Land purchase'', Some ''15,000'', None, None],
              [Some ''Rent'', Some ''800'', Some ''office'', Some ''''],
              [Some ''Sales'', Some ''50'', None, Some ''12,000.00''],
              [Some ''Bank'', Some '' 0 '', None, Some ''3800''],
              [Some ''TOTAL'', Some ''15,850'', None, Some ''15,800''],
              [None, Some ''1'', None, Some ''1'']]\<rparr>"

definition demo_env :: env where
  "demo_env =
     \<lparr>read_csv = (\<lambda>content. Some demo_frame),
      to_numeric = float_literal,
      series_sum = sequential_sum,
      fit_predict = magnitude_model,
      getenv_key = None,
      generate_content = (\<lambda>anoms. Inl ''unavailable'')\<rparr>"

definition demo_filtered :: frame where
  "demo_filtered = \<lparr>columns = [''items'', ''debit'', ''credit''],
          rows = [[Some ''Land purchase'', Some ''15,000'', None],
              [Some ''Rent'', Some ''800'', Some ''''],
              [Some ''Sales'', Some ''50'', Some ''12,000.00''],
              [Some ''Bank'', Some '' 0 '', Some ''3800'']]\<rparr>"

definition abc_frame :: frame where
  "abc_frame =
     \<lparr>columns = [''items'', ''debit'', ''credit''],
      rows = [[Some ''Sales'', Some ''0'', Some ''120''],
              [Some ''Rent'', Some ''abc'', Some ''0'']]\<rparr>"

definition abc_first_frame :: frame where
  "abc_first_frame =
     \<lparr>columns = [''items'', ''debit'', ''credit''],
      rows = [[Some ''Sales'', Some ''abc'', Some ''120''],
              [Some ''Rent'', Some ''80'', Some ''0'']]\<rparr>"

definition refund_frame :: frame where
  "refund_frame =
     \<lparr>columns = [''items'', ''debit'', ''credit''],
      rows = [[Some ''Refund'', Some ''-5'', Some ''0'']]\<rparr>"

definition frame_env :: "frame \<Rightarrow> env" where
  "frame_env df = demo_env\<lparr>read_csv := \<lambda>content. Some df\<rparr>"

definition bad_credit_frame :: frame where
  "bad_credit_frame =
     \<lparr>columns = [''items'', ''debit'', ''credit''],
      rows = [[Some ''Sales'', Some ''0'', Some ''12O'']]\<rparr>"

definition empty_frame :: frame where
  "empty_frame = \<lparr>columns = [''Items'', ''Debit'', ''Credit''], rows = []\<rparr>"

definition footer_frame :: frame where
  "footer_frame =
     \<lparr>columns = [''Items'', ''Debit'', ''Credit''],
      rows = [[Some ''Total'', Some ''0'', Some ''0'']]\<rparr>"

definition duplicate_frame :: frame where
  "duplicate_frame =
     \<lparr>columns = [''Items'', ''Debit'', ''debit '', ''Credit''],
      rows = [[Some ''Rent'', Some ''800'', Some ''800'', Some ''0'']]\<rparr>"

definition missing_frame :: frame where
  "missing_frame =
     \<lparr>columns = [''Items'', ''Debit'', ''Memo''],
      rows = [[Some ''Rent'', Some ''800'', None]]\<rparr>"

definition penny_frame :: frame where
  "penny_frame =
     \<lparr>columns = [''items'', ''debit'', ''credit''],
      rows = [[Some ''Stamps'', Some ''0.03'', Some ''0.02'']]\<rparr>"

definition cent_ledger :: "ledger_row list" where
  "cent_ledger = [\<lparr>items = Some ''Stamps'', debit = double_of (1 / 100), credit = 0\<rparr>]"

definition failing_env :: env where
  "failing_env = demo_env\<lparr>getenv_key := Some ''key'',
                           generate_content := \<lambda>anoms. Inl ''503 unavailable''\<rparr>"

definition comma_frame :: frame where
  "comma_frame =
     \<lparr>columns = [''items'', ''debit'', ''credit''],
      rows = [[Some ''Fees'', Some ''1,2,3'', Some '',45,'']]\<rparr>"

section \<open>Verified properties\<close>

subsection \<open>The rule stage filters the statistical flags\<close>

lemma length_filter_mono:
  "(\<And>x. x \<in> set xs \<Longrightarrow> P x \<Longrightarrow> Q x) \<Longrightarrow> length (filter P xs) \<le> length (filter Q xs)"
  by (induction xs) auto

lemma is_significant_anomaly_mono:
  "a \<le> a' \<Longrightarrow> is_significant_anomaly a' s r \<Longrightarrow> is_significant_anomaly a s r"
  unfolding is_significant_anomaly_def by auto

text \<open>
  C3. A row is significant only if the outlier model gave it the score \<open>-1\<close> and one of
  the rule conditions holds: debit or credit above the amount threshold, or one side
  above the imbalance threshold while the other side is zero. So the significant rows
  are among the flagged rows, and a larger amount threshold selects a subset of the
  rows, hence no more of them. The list the detector returns is this selection at the
  threshold derived from the table.
\<close>

theorem significant_subset_of_flagged:
  "(is_significant_anomaly a s r \<longrightarrow>
      s = - 1 \<and>
      (a < debit r \<or> a < credit r \<or>
       (imbalance_threshold < debit r \<and> credit r = 0) \<or>
       (imbalance_threshold < credit r \<and> debit r = 0)))
   \<and> set (significant a ledger scores) \<subseteq> {r. (r, - 1) \<in> set (zip ledger scores)}
   \<and> (a \<le> a' \<longrightarrow>
        set (significant a' ledger scores) \<subseteq> set (significant a ledger scores) \<and>
        length (significant a' ledger scores) \<le> length (significant a ledger scores))
   \<and> (detect model ledger = Inr anoms \<longrightarrow>
        (\<exists>scores. model (contamination (length ledger))
                     (map (\<lambda>r. (debit r, credit r)) ledger) = Inr scores \<and>
                  anoms = significant (amount_threshold ledger) ledger scores))"
proof (intro conjI impI)
  assume "is_significant_anomaly a s r"
  then show "s = - 1" by (simp add: is_significant_anomaly_def)
next
  assume "is_significant_anomaly a s r"
  then show "a < debit r \<or> a < credit r \<or>
       (imbalance_threshold < debit r \<and> credit r = 0) \<or>
       (imbalance_threshold < credit r \<and> debit r = 0)"
    by (simp add: is_significant_anomaly_def)
next
  show "set (significant a ledger scores) \<subseteq> {r. (r, - 1) \<in> set (zip ledger scores)}"
    by (auto simp: significant_def is_significant_anomaly_def)
next
  assume le: "a \<le> a'"
  show "set (significant a' ledger scores) \<subseteq> set (significant a ledger scores)"
    using is_significant_anomaly_mono [OF le] by (force simp: significant_def)
next
  assume le: "a \<le> a'"
  have "length (filter (\<lambda>(r, s). is_significant_anomaly a' s r) (zip ledger scores))
          \<le> length (filter (\<lambda>(r, s). is_significant_anomaly a s r) (zip ledger scores))"
    by (rule length_filter_mono) (auto intro: is_significant_anomaly_mono [OF le])
  then show "length (significant a' ledger scores) \<le> length (significant a ledger scores)"
    by (simp add: significant_def)
next
  assume "detect model ledger = Inr anoms"
  then show "\<exists>scores. model (contamination (length ledger))
                     (map (\<lambda>r. (debit r, credit r)) ledger) = Inr scores \<and>
                  anoms = significant (amount_threshold ledger) ledger scores"
    by (auto simp: detect_def split: sum.splits if_splits)
qed

theorem significant_subset_of_flagged_witness:
  "is_significant_anomaly 11000 (- 1) \<lparr>items = Some ''Sales'', debit = 50, credit = 12000\<rparr>
   \<and> (11000::rat) \<le> 13000
   \<and> length (significant 13000 demo_ledger [- 1, 1, - 1, 1]) = 1
   \<and> length (significant 11000 demo_ledger [- 1, 1, - 1, 1]) = 2
   \<and> detect magnitude_model demo_ledger =
       Inr (significant (amount_threshold demo_ledger) demo_ledger [- 1, 1, - 1, - 1])"
  using significant_subset_of_flagged [of 11000 "- 1"
      "\<lparr>items = Some ''Sales'', debit = 50, credit = 12000\<rparr>" demo_ledger "[- 1, 1, - 1, 1]" 13000
      magnitude_model "significant (amount_threshold demo_ledger) demo_ledger [- 1, 1, - 1, - 1]"]
  by (simp add: significant_def is_significant_anomaly_def imbalance_threshold_def demo_ledger_def
        detect_def magnitude_model_def contamination_def)

subsection \<open>The amount threshold\<close>

lemma floor_rat_numeral_div [simp]:
  "\<lfloor>numeral a / numeral b :: rat\<rfloor> = numeral a div numeral b"
  by (metis floor_divide_of_int_eq of_int_numeral)


lemma quantile_demo_debit: "quantile (95 / 100) (map debit demo_ledger) = Some 12870"
  by (simp add: quantile_def demo_ledger_def Let_def)

lemma quantile_demo_credit: "quantile (95 / 100) (map credit demo_ledger) = Some 10770"
  by (simp add: quantile_def demo_ledger_def Let_def)




subsection \<open>A concrete run of the handler\<close>

lemma char_of_decimal:
  "char_of (48::nat) = CHR ''0''" "char_of (49::nat) = CHR ''1''" "char_of (50::nat) = CHR ''2''"
  "char_of (51::nat) = CHR ''3''" "char_of (52::nat) = CHR ''4''" "char_of (53::nat) = CHR ''5''"
  "char_of (54::nat) = CHR ''6''" "char_of (55::nat) = CHR ''7''" "char_of (56::nat) = CHR ''8''"
  "char_of (57::nat) = CHR ''9''"
  by (simp_all add: char_of_def bit_Suc_0_iff)

lemma is_space_simps:
  "is_space CHR '' ''" "\<not> is_space CHR ''0''" "\<not> is_space CHR ''s''" "\<not> is_space CHR ''t''"
  by (simp_all add: is_space_def)

lemma select_demo:
  "select_required demo_frame =
     Inr \<lparr>columns = [''items'', ''debit'', ''credit''],
          rows = [[Some ''Land purchase'', Some ''15,000'', None],
              [Some ''Rent'', Some ''800'', Some ''''],
              [Some ''Sales'', Some ''50'', Some ''12,000.00''],
              [Some ''Bank'', Some '' 0 '', Some ''3800''],
              [Some ''TOTAL'', Some ''15,850'', Some ''15,800''],
              [None, Some ''1'', Some ''1'']]\<rparr>"
  by code_simp

lemma filter_demo:
  "filter_rows \<lparr>columns = [''items'', ''debit'', ''credit''],
          rows = [[Some ''Land purchase'', Some ''15,000'', None],
              [Some ''Rent'', Some ''800'', Some ''''],
              [Some ''Sales'', Some ''50'', Some ''12,000.00''],
              [Some ''Bank'', Some '' 0 '', Some ''3800''],
              [Some ''TOTAL'', Some ''15,850'', Some ''15,800''],
              [None, Some ''1'', Some ''1'']]\<rparr> =
     Inr \<lparr>columns = [''items'', ''debit'', ''credit''],
          rows = [[Some ''Land purchase'', Some ''15,000'', None],
              [Some ''Rent'', Some ''800'', Some ''''],
              [Some ''Sales'', Some ''50'', Some ''12,000.00''],
              [Some ''Bank'', Some '' 0 '', Some ''3800'']]\<rparr>"
  by code_simp

lemma clean_text_demo:
  "map clean_text [Some ''15,000'', Some ''800'', Some ''50'', Some '' 0 ''] = [''15000'', ''800'', ''50'', ''0'']"
  "map clean_text [None, Some '''', Some ''12,000.00'', Some ''3800''] = [''0'', ''0'', ''12000.00'', ''3800'']"
  by code_simp+

lemma decimal_literal_demo:
  "decimal_literal ''15000'' = Some 15000" "decimal_literal ''800'' = Some 800"
  "decimal_literal ''50'' = Some 50" "decimal_literal ''0'' = Some 0"
  "decimal_literal ''12000.00'' = Some 12000" "decimal_literal ''3800'' = Some 3800"
  "decimal_literal ''123'' = Some 123" "decimal_literal ''-5'' = Some (- 5)"
  "decimal_literal ''abc'' = None"
  by (simp_all add: decimal_literal_def unsigned_literal_def digit_val_def Let_def)

lemma double_of_demo:
  "double_of 0 = 0" "double_of 50 = 50" "double_of 12000 = 12000" "double_of 15000 = 15000"
  "double_of 15800 = 15800" "double_of 15850 = 15850" "double_of 20000 = 20000"
  "double_of 800 = 800" "double_of 3800 = 3800"
  by code_simp+

lemma double_of_cent: "double_of (1 / 100) = 5764607523034235 / 576460752303423488"
  by code_simp

lemma float_literal_demo:
  "float_literal ''15000'' = Some 15000" "float_literal ''800'' = Some 800"
  "float_literal ''50'' = Some 50" "float_literal ''0'' = Some 0"
  "float_literal ''12000.00'' = Some 12000" "float_literal ''3800'' = Some 3800"
  by (simp_all add: float_literal_def decimal_literal_demo double_of_demo)

lemma column_of_demo:
  "column_of demo_filtered ''items'' = Inr [Some ''Land purchase'', Some ''Rent'', Some ''Sales'', Some ''Bank'']"
  "column_of demo_filtered ''debit'' = Inr [Some ''15,000'', Some ''800'', Some ''50'', Some '' 0 '']"
  "column_of demo_filtered ''credit'' = Inr [None, Some '''', Some ''12,000.00'', Some ''3800'']"
  by code_simp+

lemma clean_numeric_demo: "clean_numeric decimal_literal demo_filtered = Inr demo_ledger"
  using clean_text_demo
  by (simp add: clean_numeric_def column_of_demo clean_column_def decimal_literal_demo
        List.map_filter_simps demo_ledger_def)

lemma clean_numeric_float_demo: "clean_numeric float_literal demo_filtered = Inr demo_ledger"
  using clean_text_demo
  by (simp add: clean_numeric_def column_of_demo clean_column_def float_literal_demo
        List.map_filter_simps demo_ledger_def)

lemma endswith_csv: "endswith ''ledger.csv'' ''.csv''"
  by (simp add: endswith_def)

lemma clean_table_demo: "clean_table demo_env ''ledger.csv'' content = Inr demo_ledger"
  using select_demo filter_demo clean_numeric_float_demo
  by (simp add: clean_table_def demo_env_def endswith_csv demo_filtered_def)

lemma amount_threshold_demo: "amount_threshold demo_ledger = 12870"
  using quantile_demo_debit quantile_demo_credit
  by (simp add: amount_threshold_def series_max_def List.map_filter_simps)

lemma detect_demo:
  "detect magnitude_model demo_ledger =
     Inr [\<lparr>items = Some ''Land purchase'', debit = 15000, credit = 0\<rparr>]"
  unfolding detect_def amount_threshold_demo
  by (simp add: demo_ledger_def magnitude_model_def significant_def
        is_significant_anomaly_def imbalance_threshold_def)

lemma sequential_sum_demo:
  "sequential_sum (map debit demo_ledger) = 15850" "sequential_sum (map credit demo_ledger) = 15800"
  by (simp_all add: sequential_sum_def demo_ledger_def double_of_demo)

lemma balance_message_demo:
  "balance_message sequential_sum demo_ledger =
     ''Unbalanced: Total Debit = 15850.00, Total Credit = 15800.00''"
  by (simp add: balance_message_def is_balanced_def total_debit_def total_credit_def
        sequential_sum_demo double_of_demo double_of_cent
        format_2f_def round_half_even_def Let_def digits.simps char_of_decimal)

lemma demo_env_simps:
  "fit_predict demo_env = magnitude_model" "getenv_key demo_env = None"
  "series_sum demo_env = sequential_sum"
  by (simp_all add: demo_env_def)

lemma upload_csv_demo:
  "upload_csv demo_env ''ledger.csv'' content =
     Inr \<lparr>balance_status = ''Unbalanced: Total Debit = 15850.00, Total Credit = 15800.00'',
          anomalies = [\<lparr>items = Some ''Land purchase'', debit = 15000, credit = 0\<rparr>],
          recommendations = ''Error: GEMINI_API_KEY not set''\<rparr>"
  by (simp add: upload_csv_def clean_table_demo demo_env_simps detect_demo
        balance_message_demo recommend_def)

subsection \<open>The balance check\<close>

lemma round_half_even_near: "\<bar>of_int (round_half_even q) - q\<bar> \<le> 1 / 2"
  unfolding round_half_even_def Let_def
  by (auto simp: abs_if) linarith+

lemma round_half_even_nonneg: "0 \<le> q \<Longrightarrow> 0 \<le> round_half_even q"
  unfolding round_half_even_def Let_def by auto

lemma digit_val_char_of: "d < 10 \<Longrightarrow> digit_val (char_of (48 + d)) = Some d"
  by (simp add: digit_val_def Let_def)

lemma char_of_digit_neq: "(d::nat) < 10 \<Longrightarrow> char_of (48 + d) \<noteq> CHR ''.'' \<and> char_of (48 + d) \<noteq> CHR ''-'' \<and> char_of (48 + d) \<noteq> CHR ''+''"
proof -
  assume "d < 10"
  then have "digit_val (char_of (48 + d)) = Some d" by (rule digit_val_char_of)
  moreover have "digit_val CHR ''.'' = None" "digit_val CHR ''-'' = None" "digit_val CHR ''+'' = None"
    by (simp_all add: digit_val_def)
  ultimately show ?thesis by auto
qed

lemma nat_of_digits_snoc:
  "nat_of_digits acc (xs @ [c]) =
     (case nat_of_digits acc xs of
        None \<Rightarrow> None
      | Some a \<Rightarrow> (case digit_val c of None \<Rightarrow> None | Some d \<Rightarrow> Some (10 * a + d)))"
  by (induction xs arbitrary: acc) (auto split: option.splits)

lemma nat_of_digits_digits: "nat_of_digits 0 (digits n) = Some n"
proof (induction n rule: digits.induct)
  case (1 n)
  show ?case
  proof (cases "n < 10")
    case True
    then show ?thesis by (subst digits.simps) (simp add: digit_val_char_of)
  next
    case False
    with 1 have "nat_of_digits 0 (digits (n div 10)) = Some (n div 10)" by simp
    with False show ?thesis
      by (subst digits.simps) (simp add: nat_of_digits_snoc digit_val_char_of)
  qed
qed

lemma digits_no_point: "c \<in> set (digits n) \<Longrightarrow> c \<noteq> CHR ''.''"
proof (induction n rule: digits.induct)
  case (1 n)
  show ?case
  proof (cases "n < 10")
    case True
    with 1(2) show ?thesis 
      by (subst (asm) digits.simps) (use char_of_digit_neq[of n] in auto)
  next
    case False
    with 1 show ?thesis
      by (subst (asm) (2) digits.simps) (use char_of_digit_neq[of "n mod 10"] in auto)
  qed
qed

lemma digits_hd: "\<exists>c cs. digits n = c # cs \<and> c \<noteq> CHR ''-'' \<and> c \<noteq> CHR ''+''"
proof (induction n rule: digits.induct)
  case (1 n)
  show ?case
  proof (cases "n < 10")
    case True
    then show ?thesis 
      by (subst digits.simps) (use char_of_digit_neq[of n] in auto)
  next
    case False
    with 1 show ?thesis
      by (subst digits.simps) auto
  qed
qed

lemma takeWhile_digits:
  "takeWhile (\<lambda>c. c \<noteq> CHR ''.'') (digits a @ CHR ''.'' # fp) = digits a"
proof -
  have "takeWhile (\<lambda>c. c \<noteq> CHR ''.'') (digits a @ CHR ''.'' # fp)
          = takeWhile (\<lambda>c. c \<noteq> CHR ''.'') (digits a)"
    by (rule takeWhile_tail) simp
  also have "\<dots> = digits a"
    using digits_no_point [of _ a] by (simp add: takeWhile_eq_all_conv)
  finally show ?thesis .
qed

lemma dropWhile_digits:
  "dropWhile (\<lambda>c. c \<noteq> CHR ''.'') (digits a @ CHR ''.'' # fp) = CHR ''.'' # fp"
proof -
  have "dropWhile (\<lambda>c. c \<noteq> CHR ''.'') (digits a @ CHR ''.'' # fp)
          = dropWhile (\<lambda>c. c \<noteq> CHR ''.'') (CHR ''.'' # fp)"
    by (rule dropWhile_append2) (use digits_no_point [of _ a] in blast)
  then show ?thesis by simp
qed

lemma unsigned_literal_point:
  assumes "nat_of_digits 0 fp = Some b"
  shows "unsigned_literal (digits a @ CHR ''.'' # fp) = Some (of_nat a + of_nat b / 10 ^ length fp)"
proof -
  have ne: "digits a \<noteq> []" using digits_hd [of a] by auto
  show ?thesis
    unfolding unsigned_literal_def Let_def takeWhile_digits dropWhile_digits
    using ne assms by (simp add: nat_of_digits_digits)
qed

lemma nat_of_two_digits:
  assumes "d1 < 10" "d2 < 10"
  shows "nat_of_digits 0 [char_of (48 + d1), char_of (48 + d2)] = Some (10 * d1 + d2)"
proof -
  have "digit_val (char_of (48 + d1)) = Some d1" "digit_val (char_of (48 + d2)) = Some d2"
    using assms by (simp_all only: digit_val_char_of)
  then show ?thesis by (simp only: nat_of_digits.simps option.case) simp
qed

lemma decimal_literal_unsigned:
  "c \<noteq> CHR ''-'' \<Longrightarrow> c \<noteq> CHR ''+'' \<Longrightarrow> decimal_literal (c # cs) = unsigned_literal (c # cs)"
  by (simp add: decimal_literal_def)

lemma decimal_literal_minus:
  "decimal_literal (CHR ''-'' # cs) = map_option uminus (unsigned_literal cs)"
  by (simp add: decimal_literal_def)

lemma hundreds_split:
  "rat_of_nat (n div 100) + of_nat (10 * (n div 10 mod 10) + n mod 10) / 10 ^ 2 = of_nat n / 100"
proof -
  have "n mod (10 * 10) = 10 * (n div 10 mod 10) + n mod 10" by (rule mod_mult2_eq)
  then have m: "n mod 100 = 10 * (n div 10 mod 10) + n mod 10" by simp
  have "100 * (n div 100) + n mod 100 = n" by simp
  with m have "100 * (n div 100) + (10 * (n div 10 mod 10) + n mod 10) = n" by simp
  then have "rat_of_nat (100 * (n div 100) + (10 * (n div 10 mod 10) + n mod 10)) = of_nat n"
    by (rule arg_cong)
  then have "100 * rat_of_nat (n div 100) + rat_of_nat (10 * (n div 10 mod 10) + n mod 10) = of_nat n"
    by (simp only: of_nat_add of_nat_mult of_nat_numeral)
  then show ?thesis by (simp add: field_simps)
qed

lemma decimal_literal_format_2f:
  "decimal_literal (format_2f x) =
     Some ((if x < 0 then - 1 else 1) * of_nat (nat (round_half_even (\<bar>x\<bar> * 100))) / 100)"
proof -
  define n where "n = nat (round_half_even (\<bar>x\<bar> * 100))"
  define fp where "fp = [char_of (48 + n div 10 mod 10), char_of (48 + n mod 10)]"
  define body where "body = digits (n div 100) @ CHR ''.'' # fp"
  have fmt: "format_2f x = (if x < 0 then ''-'' else []) @ body"
    by (simp add: format_2f_def Let_def n_def fp_def body_def)
  have "nat_of_digits 0 fp = Some (10 * (n div 10 mod 10) + n mod 10)"
    unfolding fp_def by (rule nat_of_two_digits) simp_all
  then have "unsigned_literal body
               = Some (of_nat (n div 100) + of_nat (10 * (n div 10 mod 10) + n mod 10) / 10 ^ length fp)"
    unfolding body_def by (rule unsigned_literal_point)
  moreover have "length fp = 2" by (simp add: fp_def)
  ultimately have u: "unsigned_literal body = Some (of_nat n / 100)"
    by (simp only: hundreds_split)
  obtain c cs where hd: "digits (n div 100) = c # cs" "c \<noteq> CHR ''-''" "c \<noteq> CHR ''+''"
    using digits_hd [of "n div 100"] by blast
  have b: "body = c # (cs @ CHR ''.'' # fp)" by (simp add: body_def hd(1))
  have pos: "decimal_literal body = Some (of_nat n / 100)"
    using decimal_literal_unsigned [OF hd(2,3), of "cs @ CHR ''.'' # fp"] u b by simp
  have neg: "decimal_literal (CHR ''-'' # body) = Some (- (of_nat n / 100))"
    using u by (simp add: decimal_literal_minus)
  show ?thesis
  proof (cases "x < 0")
    case True
    with neg show ?thesis by (simp add: fmt n_def)
  next
    case False
    with pos show ?thesis by (simp add: fmt n_def)
  qed
qed

lemma format_2f_near:
  "\<exists>v k. decimal_literal (format_2f x) = Some v \<and> v = of_int k / 100 \<and> \<bar>v - x\<bar> \<le> 1 / 200"
proof -
  define r where "r = round_half_even (\<bar>x\<bar> * 100)"
  have nn: "0 \<le> r" unfolding r_def by (rule round_half_even_nonneg) simp
  have near: "\<bar>of_int r - \<bar>x\<bar> * 100\<bar> \<le> 1 / 2" unfolding r_def by (rule round_half_even_near)
  define v where "v = (if x < 0 then - 1 else 1) * rat_of_nat (nat r) / 100"
  have dl: "decimal_literal (format_2f x) = Some v"
    unfolding v_def r_def by (rule decimal_literal_format_2f)
  have vk: "v = of_int ((if x < 0 then - 1 else 1) * r) / 100"
    using nn by (simp add: v_def)
  have "\<bar>v - x\<bar> \<le> 1 / 200"
  proof (cases "x < 0")
    case True
    then have "v = - of_int r / 100" using nn by (simp add: v_def)
    then have e: "v - x = - (of_int r + x * 100) / 100" by simp
    have "\<bar>- (of_int r + x * 100) / 100\<bar> = \<bar>of_int r + x * 100\<bar> / 100" by simp
    then have "\<bar>v - x\<bar> = \<bar>of_int r + x * 100\<bar> / 100" by (simp only: e)
    moreover from True near have "\<bar>of_int r + x * 100\<bar> \<le> 1 / 2" by simp
    then have "\<bar>of_int r + x * 100\<bar> / 100 \<le> 1 / 200" by simp
    ultimately show ?thesis by (simp only:)
  next
    case False
    then have "v = of_int r / 100" using nn by (simp add: v_def)
    then have e: "v - x = (of_int r - x * 100) / 100" by simp
    have "\<bar>(of_int r - x * 100) / 100\<bar> = \<bar>of_int r - x * 100\<bar> / 100" by simp
    then have "\<bar>v - x\<bar> = \<bar>of_int r - x * 100\<bar> / 100" by (simp only: e)
    moreover from False near have "\<bar>of_int r - x * 100\<bar> \<le> 1 / 2" by simp
    then have "\<bar>of_int r - x * 100\<bar> / 100 \<le> 1 / 200" by simp
    ultimately show ?thesis by (simp only:)
  qed
  with dl vk show ?thesis by blast
qed

lemma upload_penny:
  "upload_csv (frame_env penny_frame) ''ledger.csv'' [] =
     Inr \<lparr>balance_status = ''Balanced: Total Debit = 0.03, Total Credit = 0.02'',
          anomalies = [], recommendations = ''Error: GEMINI_API_KEY not set''\<rparr>"
  by code_simp

lemma decimal_literal_penny:
  "decimal_literal ''0.03'' = Some (3 / 100)" "decimal_literal ''0.02'' = Some (2 / 100)"
  by (simp_all add: decimal_literal_def unsigned_literal_def digit_val_def Let_def)

lemma spec_penny: "\<not> spec_is_balanced [3 / 100] [2 / 100]"
  by (simp add: spec_is_balanced_def)

text \<open>
  C4, as stated, at a concrete table. The file holds one row with the debit 0.03 and the
  credit 0.02: the decimal amounts differ by exactly 0.01, which the claim calls
  unbalanced. The handler works on float64: the difference of the two float64 totals is
  0.009999999999999998, below the float64 0.01, and the status says balanced.
\<close>

lemma format_2f_shape:
  "\<exists>n (a::nat) (b::nat). a < 10 \<and> b < 10 \<and>
     format_2f x = (if x < 0 then ''-'' else []) @ digits n @ ''.'' @
                     [char_of (48 + a), char_of (48 + b)]"
proof -
  define m where "m = nat (round_half_even (\<bar>x\<bar> * 100))"
  have "m div 10 mod 10 < 10" "m mod 10 < 10" by simp_all
  moreover have "format_2f x = (if x < 0 then ''-'' else []) @ digits (m div 100) @ ''.'' @
                     [char_of (48 + m div 10 mod 10), char_of (48 + m mod 10)]"
    by (simp add: format_2f_def Let_def m_def)
  ultimately show ?thesis by blast
qed

lemma format_2f_ties: "format_2f (1 / 8) = ''0.12''" "format_2f (3 / 8) = ''0.38''"
  by (simp_all add: format_2f_def round_half_even_def Let_def digits.simps char_of_decimal)

theorem balance_check_decimal_counterexample:
  "decimal_literal ''0.03'' = Some (3 / 100)
   \<and> decimal_literal ''0.02'' = Some (2 / 100)
   \<and> \<not> spec_is_balanced [3 / 100] [2 / 100]
   \<and> upload_csv (frame_env penny_frame) ''ledger.csv'' [] =
     Inr \<lparr>balance_status = ''Balanced: Total Debit = 0.03, Total Credit = 0.02'',
          anomalies = [], recommendations = ''Error: GEMINI_API_KEY not set''\<rparr>"
  by (intro conjI decimal_literal_penny spec_penny upload_penny)

lemma double_of_cent_fixed:
  "double_of (5764607523034235 / 576460752303423488) = 5764607523034235 / 576460752303423488"
  by code_simp

lemma double_of_cent_pos: "0 < double_of (1 / 100)"
  by (simp add: double_of_cent)

lemma sequential_sum_cent:
  "sequential_sum (map debit cent_ledger) = double_of (1 / 100)"
  "sequential_sum (map credit cent_ledger) = 0"
  by (simp_all add: sequential_sum_def cent_ledger_def double_of_cent double_of_cent_fixed
        double_of_demo)

lemma balance_message_cent:
  "balance_message sequential_sum cent_ledger =
     ''Unbalanced: Total Debit = 0.01, Total Credit = 0.00''"
  by (simp add: balance_message_def is_balanced_def total_debit_def total_credit_def
        sequential_sum_cent)
     (simp add: double_of_cent double_of_cent_fixed
        format_2f_def round_half_even_def Let_def digits.simps char_of_decimal)

lemma sequential_sum_two_sided:
  "sequential_sum (map debit two_sided_ledger) = 20000"
  "sequential_sum (map credit two_sided_ledger) = 20000"
  by (simp_all add: sequential_sum_def two_sided_ledger_def double_of_demo)

text \<open>
  C4, amended. The ledger is balanced exactly when the float64 difference of the float64
  debit total and the float64 credit total is, in absolute value, strictly below the
  float64 nearest to 0.01 (5764607523034235 / 2^59); a float64 difference equal to that
  number is unbalanced, and equal totals are balanced. The status string is the verdict
  followed by both totals in the format \<^verbatim>\<open>.2f\<close>: a sign if the total is negative, the
  digits of the integer part, a point and two digits; the text reads back as a multiple
  of 0.01 within 0.005 of the total, and at a tie the even neighbour is taken (0.125
  gives 0.12, 0.375 gives 0.38). The status the handler returns is this string for the
  cleaned table and the sum of pandas.
\<close>

theorem balance_check_float64:
  "(is_balanced sm ledger \<longleftrightarrow>
      \<bar>double_of (sm (map debit ledger) - sm (map credit ledger))\<bar> < double_of (1 / 100))
   \<and> (\<bar>double_of (sm (map debit ledger) - sm (map credit ledger))\<bar> = double_of (1 / 100)
        \<longrightarrow> \<not> is_balanced sm ledger)
   \<and> (sm (map debit ledger) = sm (map credit ledger) \<longrightarrow> is_balanced sm ledger)
   \<and> double_of (1 / 100) = 5764607523034235 / 2 ^ 59
   \<and> balance_message sm ledger =
         (if is_balanced sm ledger then ''Balanced'' else ''Unbalanced'') @
         '': Total Debit = '' @ format_2f (sm (map debit ledger)) @
         '', Total Credit = '' @ format_2f (sm (map credit ledger))
   \<and> (\<exists>v k. decimal_literal (format_2f x) = Some v \<and> v = of_int k / 100 \<and>
              \<bar>v - x\<bar> \<le> 1 / 200)
   \<and> (\<exists>n (a::nat) (b::nat). a < 10 \<and> b < 10 \<and>
          format_2f x = (if x < 0 then ''-'' else []) @ digits n @ ''.'' @
                          [char_of (48 + a), char_of (48 + b)])
   \<and> format_2f (1 / 8) = ''0.12''
   \<and> format_2f (3 / 8) = ''0.38''
   \<and> (upload_csv e filename content = Inr resp \<longrightarrow>
        (\<exists>ledger. clean_table e filename content = Inr ledger \<and>
                  balance_status resp = balance_message (series_sum e) ledger))"
proof (intro conjI)
  show "\<exists>n (a::nat) (b::nat). a < 10 \<and> b < 10 \<and>
          format_2f x = (if x < 0 then ''-'' else []) @ digits n @ ''.'' @
                          [char_of (48 + a), char_of (48 + b)]"
    by (rule format_2f_shape)
  show "format_2f (1 / 8) = ''0.12''" by (rule format_2f_ties)
  show "format_2f (3 / 8) = ''0.38''" by (rule format_2f_ties)
  show "is_balanced sm ledger \<longleftrightarrow>
      \<bar>double_of (sm (map debit ledger) - sm (map credit ledger))\<bar> < double_of (1 / 100)"
    by (simp add: is_balanced_def total_debit_def total_credit_def)
  show "\<bar>double_of (sm (map debit ledger) - sm (map credit ledger))\<bar> = double_of (1 / 100)
        \<longrightarrow> \<not> is_balanced sm ledger"
    by (simp add: is_balanced_def total_debit_def total_credit_def)
  show "sm (map debit ledger) = sm (map credit ledger) \<longrightarrow> is_balanced sm ledger"
    using double_of_cent_pos
    by (simp add: is_balanced_def total_debit_def total_credit_def double_of_demo)
  show "double_of (1 / 100) = 5764607523034235 / 2 ^ 59"
    by (simp add: double_of_cent)
  show "balance_message sm ledger =
         (if is_balanced sm ledger then ''Balanced'' else ''Unbalanced'') @
         '': Total Debit = '' @ format_2f (sm (map debit ledger)) @
         '', Total Credit = '' @ format_2f (sm (map credit ledger))"
    by (simp add: balance_message_def total_debit_def total_credit_def)
  show "\<exists>v k. decimal_literal (format_2f x) = Some v \<and> v = of_int k / 100 \<and>
              \<bar>v - x\<bar> \<le> 1 / 200"
    by (rule format_2f_near)
  show "upload_csv e filename content = Inr resp \<longrightarrow>
        (\<exists>ledger. clean_table e filename content = Inr ledger \<and>
                  balance_status resp = balance_message (series_sum e) ledger)"
    by (auto simp: upload_csv_def split: sum.splits)
qed

theorem balance_check_float64_witness:
  "\<bar>double_of (sequential_sum (map debit cent_ledger) - sequential_sum (map credit cent_ledger))\<bar>
     = double_of (1 / 100)
   \<and> \<not> is_balanced sequential_sum cent_ledger
   \<and> balance_message sequential_sum cent_ledger =
        ''Unbalanced: Total Debit = 0.01, Total Credit = 0.00''
   \<and> sequential_sum (map debit two_sided_ledger) = sequential_sum (map credit two_sided_ledger)
   \<and> is_balanced sequential_sum two_sided_ledger
   \<and> upload_csv demo_env ''ledger.csv'' [] =
         Inr \<lparr>balance_status = ''Unbalanced: Total Debit = 15850.00, Total Credit = 15800.00'',
              anomalies = [\<lparr>items = Some ''Land purchase'', debit = 15000, credit = 0\<rparr>],
              recommendations = ''Error: GEMINI_API_KEY not set''\<rparr>
   \<and> clean_table demo_env ''ledger.csv'' [] = Inr demo_ledger
   \<and> balance_message (series_sum demo_env) demo_ledger =
        ''Unbalanced: Total Debit = 15850.00, Total Credit = 15800.00''"
proof -
  note t = balance_check_float64 [where sm = sequential_sum and ledger = cent_ledger]
  note u = balance_check_float64 [where sm = sequential_sum and ledger = two_sided_ledger]
  have a: "\<bar>double_of (sequential_sum (map debit cent_ledger) -
              sequential_sum (map credit cent_ledger))\<bar> = double_of (1 / 100)"
    by (simp add: sequential_sum_cent double_of_cent double_of_cent_fixed)
  from t a have b: "\<not> is_balanced sequential_sum cent_ledger" by blast
  have d: "sequential_sum (map debit two_sided_ledger) = sequential_sum (map credit two_sided_ledger)"
    by (simp add: sequential_sum_two_sided)
  from u d have e: "is_balanced sequential_sum two_sided_ledger" by blast
  have h: "balance_message (series_sum demo_env) demo_ledger =
        ''Unbalanced: Total Debit = 15850.00, Total Credit = 15800.00''"
    by (simp add: demo_env_simps balance_message_demo)
  from a b balance_message_cent d e upload_csv_demo [of "[]"] clean_table_demo [of "[]"] h
  show ?thesis by (intro conjI)
qed

subsection \<open>Bullet formatting of the recommendations\<close>

lemma split_char_nonempty: "split_char c s \<noteq> []"
  by (induction s) (auto split: list.splits)

lemma split_char_elems: "l \<in> set (split_char c s) \<Longrightarrow> c \<notin> set l"
  by (induction s arbitrary: l) (auto split: if_splits list.splits)

lemma split_char_append_sep:
  "c \<notin> set x \<Longrightarrow> split_char c (x @ c # rest) = x # split_char c rest"
  by (induction x) (auto split: list.splits)

lemma split_char_no_sep: "c \<notin> set x \<Longrightarrow> split_char c x = [x]"
  by (induction x) (auto split: list.splits)

lemma split_char_join:
  "ms \<noteq> [] \<Longrightarrow> \<forall>l\<in>set ms. c \<notin> set l \<Longrightarrow> split_char c (join [c] ms) = ms"
proof (induction "[c]" ms rule: join.induct)
  case 1
  then show ?case by simp
next
  case (2 x)
  then show ?case by (simp add: split_char_no_sep)
next
  case (3 x y ys)
  then show ?case by (simp add: split_char_append_sep)
qed

lemma join_prefix:
  "ls \<noteq> [] \<Longrightarrow> p @ join (c # p) ls = join [c] (map ((@) p) ls)"
  by (induction "c # p" ls rule: join.induct) simp_all

lemma startswith_prepend: "startswith (p @ rest) p"
  by (simp add: startswith_def)

lemma lines_of_bulleted:
  assumes "CHR 0x0A \<notin> set p"
  shows "split_char (CHR 0x0A) (p @ join (CHR 0x0A # p) (split_char (CHR 0x0A) s))
           = map ((@) p) (split_char (CHR 0x0A) s)"
proof -
  let ?ls = "split_char (CHR 0x0A) s"
  have ne: "map ((@) p) ?ls \<noteq> []" by (simp add: split_char_nonempty)
  have "\<forall>l\<in>set (map ((@) p) ?ls). CHR 0x0A \<notin> set l"
    using assms split_char_elems [of _ "CHR 0x0A" s] by auto
  with ne have "split_char (CHR 0x0A) (join [CHR 0x0A] (map ((@) p) ?ls)) = map ((@) p) ?ls"
    by (rule split_char_join)
  then show ?thesis by (simp add: join_prefix split_char_nonempty)
qed

text \<open>
  What the formatting step guarantees for every text of the service: the stored text
  starts with the bullet marker \<^verbatim>\<open>- \<close>. A stripped text that already starts with the
  marker is kept as it is. Any other text is reformatted: every line of the result is a
  line of the stripped text with the marker put in front.
\<close>

theorem format_recommendations_bulleted:
  "startswith (format_recommendations text) ''- ''
   \<and> (startswith (strip text) ''- '' \<longrightarrow> format_recommendations text = strip text)
   \<and> (\<not> startswith (strip text) ''- '' \<longrightarrow>
        split_char (CHR 0x0A) (format_recommendations text)
          = map (\<lambda>l. ''- '' @ l) (split_char (CHR 0x0A) (strip text)) \<and>
        (\<forall>l\<in>set (split_char (CHR 0x0A) (format_recommendations text)). startswith l ''- ''))
   \<and> (k \<noteq> [] \<and> service anoms = Inr text \<longrightarrow>
        recommend (Some k) service anoms = format_recommendations text)"
proof (intro conjI impI)
  show "startswith (format_recommendations text) ''- ''"
    by (simp add: format_recommendations_def Let_def) (simp add: startswith_def)
next
  assume "startswith (strip text) ''- ''"
  then show "format_recommendations text = strip text"
    by (simp add: format_recommendations_def Let_def)
next
  assume n: "\<not> startswith (strip text) ''- ''"
  have nl: "CHR 0x0A \<notin> set ''- ''" by simp
  from n have f: "format_recommendations text =
      ''- '' @ join (CHR 0x0A # ''- '') (split_char (CHR 0x0A) (strip text))"
    by (simp add: format_recommendations_def Let_def)
  show l: "split_char (CHR 0x0A) (format_recommendations text)
          = map (\<lambda>l. ''- '' @ l) (split_char (CHR 0x0A) (strip text))"
    unfolding f by (rule lines_of_bulleted [OF nl])
  show "\<forall>l\<in>set (split_char (CHR 0x0A) (format_recommendations text)). startswith l ''- ''"
    unfolding l using startswith_prepend [of "''- ''"] by auto
next
  assume "k \<noteq> [] \<and> service anoms = Inr text"
  then show "recommend (Some k) service anoms = format_recommendations text"
    by (simp add: recommend_def)
qed

lemma strip_plain: "strip ''Verify land title.\<newline>Check bank entry.  '' = ''Verify land title.\<newline>Check bank entry.''"
  by code_simp

lemma format_plain:
  "format_recommendations ''Verify land title.\<newline>Check bank entry.  ''
     = ''- Verify land title.\<newline>- Check bank entry.''"
  by code_simp

lemma strip_bullet: "strip '' - Verify land title.'' = ''- Verify land title.''"
  by code_simp

theorem format_recommendations_bulleted_witness:
  "\<not> startswith (strip ''Verify land title.\<newline>Check bank entry.  '') ''- ''
   \<and> format_recommendations ''Verify land title.\<newline>Check bank entry.  ''
        = ''- Verify land title.\<newline>- Check bank entry.''
   \<and> split_char (CHR 0x0A) (format_recommendations ''Verify land title.\<newline>Check bank entry.  '')
        = [''- Verify land title.'', ''- Check bank entry.'']
   \<and> ''key'' \<noteq> []
   \<and> recommend (Some ''key'') (\<lambda>anoms. Inr ''Verify land title.\<newline>Check bank entry.  '') []
        = ''- Verify land title.\<newline>- Check bank entry.''
   \<and> startswith (strip '' - Verify land title.'') ''- ''
   \<and> format_recommendations '' - Verify land title.'' = ''- Verify land title.''"
  using format_recommendations_bulleted [of "''Verify land title.\<newline>Check bank entry.  ''" "''key''"
      "\<lambda>anoms. Inr ''Verify land title.\<newline>Check bank entry.  ''" "[]"]
    format_recommendations_bulleted [of "'' - Verify land title.''" "''key''"
      "\<lambda>anoms. Inr '' - Verify land title.''" "[]"]
    strip_plain format_plain strip_bullet
  by (simp add: startswith_def)

text \<open>
  C9 at a concrete text. The service returns four lines of which only the first is a
  bullet. The test of line 135 looks at the first two characters only, finds the marker
  and skips the reformatting that the comment of line 134 announces and that the other
  branch applies to every line: the text goes into the recommendations field unchanged,
  with a plain second line, an empty line and a plain paragraph.
\<close>

theorem format_recommendations_keeps_plain_lines:
  "format_recommendations ''- first\<newline>second line\<newline>\<newline>plain paragraph''
     = ''- first\<newline>second line\<newline>\<newline>plain paragraph''
   \<and> split_char (CHR 0x0A)
        (format_recommendations ''- first\<newline>second line\<newline>\<newline>plain paragraph'')
     = [''- first'', ''second line'', [], ''plain paragraph'']
   \<and> \<not> startswith ''second line'' ''- ''
   \<and> \<not> startswith ''plain paragraph'' ''- ''
   \<and> recommend (Some ''key'')
        (\<lambda>anoms. Inr ''- first\<newline>second line\<newline>\<newline>plain paragraph'') []
     = ''- first\<newline>second line\<newline>\<newline>plain paragraph''"
  by code_simp

subsection \<open>Failure of the recommendation step\<close>

lemma clean_table_service:
  "clean_table (e\<lparr>getenv_key := k, generate_content := g\<rparr>) filename content
     = clean_table e filename content"
  by (simp add: clean_table_def split: option.splits sum.splits)

text \<open>
  C8. Whenever cleaning gives a table and the detector gives its anomaly list, the
  handler answers with a response, never with an error, both when the credential is
  unset or empty and when the call to the service raises: the balance status is the one
  computed from the cleaned table, the anomaly list is the one the detector returned,
  and the recommendations field is \<^verbatim>\<open>Error: GEMINI_API_KEY not set\<close> in the first case and
  \<^verbatim>\<open>AI error: \<close> followed by the message of the exception in the second. Moreover the
  credential and the service touch nothing but that field: replacing them changes
  neither an error into a response nor the other two fields of a response.
\<close>

theorem recommendation_failure_keeps_results:
  "(clean_table e filename content = Inr ledger \<and> detect (fit_predict e) ledger = Inr anoms \<and>
      (getenv_key e = None \<or> getenv_key e = Some []) \<longrightarrow>
      upload_csv e filename content =
        Inr \<lparr>balance_status = balance_message (series_sum e) ledger,
             anomalies = anoms,
             recommendations = ''Error: GEMINI_API_KEY not set''\<rparr>)
   \<and> (clean_table e filename content = Inr ledger \<and> detect (fit_predict e) ledger = Inr anoms \<and>
      getenv_key e = Some key \<and> key \<noteq> [] \<and> generate_content e anoms = Inl msg \<longrightarrow>
      upload_csv e filename content =
        Inr \<lparr>balance_status = balance_message (series_sum e) ledger,
             anomalies = anoms,
             recommendations = ''AI error: '' @ msg\<rparr>)
   \<and> (upload_csv e filename content = Inr r \<longrightarrow>
      upload_csv (e\<lparr>getenv_key := k, generate_content := g\<rparr>) filename content
        = Inr (r\<lparr>recommendations := recommend k g (anomalies r)\<rparr>))
   \<and> (upload_csv e filename content = Inl err \<longrightarrow>
      upload_csv (e\<lparr>getenv_key := k, generate_content := g\<rparr>) filename content = Inl err)"
proof (intro conjI impI)
  assume "clean_table e filename content = Inr ledger \<and> detect (fit_predict e) ledger = Inr anoms \<and>
      (getenv_key e = None \<or> getenv_key e = Some [])"
  then show "upload_csv e filename content =
        Inr \<lparr>balance_status = balance_message (series_sum e) ledger,
             anomalies = anoms,
             recommendations = ''Error: GEMINI_API_KEY not set''\<rparr>"
    by (auto simp: upload_csv_def recommend_def)
next
  assume "clean_table e filename content = Inr ledger \<and> detect (fit_predict e) ledger = Inr anoms \<and>
      getenv_key e = Some key \<and> key \<noteq> [] \<and> generate_content e anoms = Inl msg"
  then show "upload_csv e filename content =
        Inr \<lparr>balance_status = balance_message (series_sum e) ledger,
             anomalies = anoms,
             recommendations = ''AI error: '' @ msg\<rparr>"
    by (simp add: upload_csv_def recommend_def)
next
  assume "upload_csv e filename content = Inr r"
  then show "upload_csv (e\<lparr>getenv_key := k, generate_content := g\<rparr>) filename content
        = Inr (r\<lparr>recommendations := recommend k g (anomalies r)\<rparr>)"
    by (auto simp: upload_csv_def clean_table_service split: sum.splits)
next
  assume "upload_csv e filename content = Inl err"
  then show "upload_csv (e\<lparr>getenv_key := k, generate_content := g\<rparr>) filename content = Inl err"
    by (auto simp: upload_csv_def clean_table_service split: sum.splits)
qed

lemma clean_table_failing: "clean_table failing_env ''ledger.csv'' [] = Inr demo_ledger"
  unfolding failing_env_def clean_table_service by (rule clean_table_demo)

lemma failing_env_simps:
  "fit_predict failing_env = magnitude_model" "getenv_key failing_env = Some ''key''"
  "series_sum failing_env = sequential_sum"
  "generate_content failing_env = (\<lambda>anoms. Inl ''503 unavailable'')"
  by (simp_all add: failing_env_def demo_env_def)

theorem recommendation_failure_keeps_results_witness:
  "clean_table demo_env ''ledger.csv'' [] = Inr demo_ledger
   \<and> detect (fit_predict demo_env) demo_ledger =
        Inr [\<lparr>items = Some ''Land purchase'', debit = 15000, credit = 0\<rparr>]
   \<and> getenv_key demo_env = None
   \<and> upload_csv demo_env ''ledger.csv'' [] =
     Inr \<lparr>balance_status = ''Unbalanced: Total Debit = 15850.00, Total Credit = 15800.00'',
          anomalies = [\<lparr>items = Some ''Land purchase'', debit = 15000, credit = 0\<rparr>],
          recommendations = ''Error: GEMINI_API_KEY not set''\<rparr>
   \<and> clean_table failing_env ''ledger.csv'' [] = Inr demo_ledger
   \<and> detect (fit_predict failing_env) demo_ledger =
        Inr [\<lparr>items = Some ''Land purchase'', debit = 15000, credit = 0\<rparr>]
   \<and> getenv_key failing_env = Some ''key''
   \<and> ''key'' \<noteq> []
   \<and> generate_content failing_env
        [\<lparr>items = Some ''Land purchase'', debit = 15000, credit = 0\<rparr>] = Inl ''503 unavailable''
   \<and> upload_csv failing_env ''ledger.csv'' [] =
     Inr \<lparr>balance_status = ''Unbalanced: Total Debit = 15850.00, Total Credit = 15800.00'',
          anomalies = [\<lparr>items = Some ''Land purchase'', debit = 15000, credit = 0\<rparr>],
          recommendations = ''AI error: 503 unavailable''\<rparr>"
proof -
  let ?anoms = "[\<lparr>items = Some ''Land purchase'', debit = 15000, credit = 0\<rparr>]"
  note t = recommendation_failure_keeps_results [where e = demo_env and filename = "''ledger.csv''"
      and content = "[]" and ledger = demo_ledger and anoms = ?anoms]
  note u = recommendation_failure_keeps_results [where e = failing_env and filename = "''ledger.csv''"
      and content = "[]" and ledger = demo_ledger and anoms = ?anoms and key = "''key''"
      and msg = "''503 unavailable''"]
  have a: "clean_table demo_env ''ledger.csv'' [] = Inr demo_ledger" by (rule clean_table_demo)
  have b: "detect (fit_predict demo_env) demo_ledger = Inr ?anoms"
    by (simp add: demo_env_simps detect_demo)
  have c: "getenv_key demo_env = None" by (simp add: demo_env_simps)
  from t a b c have "upload_csv demo_env ''ledger.csv'' [] =
        Inr \<lparr>balance_status = balance_message (series_sum demo_env) demo_ledger,
             anomalies = ?anoms, recommendations = ''Error: GEMINI_API_KEY not set''\<rparr>"
    by blast
  then have d: "upload_csv demo_env ''ledger.csv'' [] =
     Inr \<lparr>balance_status = ''Unbalanced: Total Debit = 15850.00, Total Credit = 15800.00'',
          anomalies = ?anoms, recommendations = ''Error: GEMINI_API_KEY not set''\<rparr>"
    by (simp add: demo_env_simps balance_message_demo)
  have e: "clean_table failing_env ''ledger.csv'' [] = Inr demo_ledger"
    by (rule clean_table_failing)
  have f: "detect (fit_predict failing_env) demo_ledger = Inr ?anoms"
    by (simp add: failing_env_simps detect_demo)
  have g: "getenv_key failing_env = Some ''key''" by (simp add: failing_env_simps)
  have h: "''key'' \<noteq> []" by simp
  have i: "generate_content failing_env ?anoms = Inl ''503 unavailable''"
    by (simp add: failing_env_simps)
  from u e f g h i have "upload_csv failing_env ''ledger.csv'' [] =
        Inr \<lparr>balance_status = balance_message (series_sum failing_env) demo_ledger,
             anomalies = ?anoms, recommendations = ''AI error: '' @ ''503 unavailable''\<rparr>"
    by blast
  then have j: "upload_csv failing_env ''ledger.csv'' [] =
     Inr \<lparr>balance_status = ''Unbalanced: Total Debit = 15850.00, Total Credit = 15800.00'',
          anomalies = ?anoms, recommendations = ''AI error: 503 unavailable''\<rparr>"
    by (simp add: failing_env_simps balance_message_demo)
  from a b c d e f g h i j show ?thesis by (intro conjI)
qed


subsection \<open>Numeric cleaning\<close>

lemma set_strip_subset: "set (strip s) \<subseteq> set s"
proof -
  have "set (dropWhile is_space (rev (dropWhile is_space s))) \<subseteq> set (rev (dropWhile is_space s))"
    by (rule set_dropWhileD [THEN subsetI])
  also have "\<dots> \<subseteq> set s"
    using set_dropWhileD [of _ is_space s] by auto
  finally show ?thesis by (simp add: strip_def)
qed

lemma no_comma_clean_text: "CHR '','' \<notin> set (clean_text c)"
proof -
  let ?t = "strip (filter (\<lambda>ch. ch \<noteq> CHR '','') (astype_str c))"
  have "CHR '','' \<notin> set ?t" using set_strip_subset by fastforce
  then show ?thesis by (simp add: clean_text_def Let_def)
qed

lemma map_filter_id_Some: "List.map_filter id (map Some vs) = vs"
  by (induction vs) (simp_all add: List.map_filter_simps)

lemma clean_column_ok:
  "map (\<lambda>c. p (clean_text c)) cells = map Some vs \<Longrightarrow> clean_column p col cells = Inr vs"
  by (auto simp: clean_column_def Let_def list_ex_iff map_filter_id_Some)

lemma clean_column_bad:
  "\<exists>c\<in>set cells. p (clean_text c) = None \<Longrightarrow>
     clean_column p col cells = Inl (HTTPException 400 (''Invalid numeric values in '' @ col))"
  by (force simp: clean_column_def Let_def list_ex_iff)

lemma map_Some_map_filter:
  "\<not> list_ex (\<lambda>v. v = None) xs \<Longrightarrow> map Some (List.map_filter id xs) = xs"
  by (induction xs) (auto simp: List.map_filter_simps)

lemma clean_column_Inr:
  "clean_column p col cells = Inr vs \<Longrightarrow> map (\<lambda>c. p (clean_text c)) cells = map Some vs"
proof -
  assume a: "clean_column p col cells = Inr vs"
  let ?vals = "map (\<lambda>c. p (clean_text c)) cells"
  from a have no: "\<not> list_ex (\<lambda>v. v = None) ?vals" and vs: "vs = List.map_filter id ?vals"
    by (auto simp: clean_column_def Let_def split: if_splits)
  from no vs show ?thesis by (simp add: map_Some_map_filter)
qed

lemma clean_text_123: "clean_text (Some ''1,2,3'') = ''123''" "clean_text (Some ''12,3'') = ''123''"
  by code_simp+

lemma clean_text_Some:
  "clean_text (Some s) =
     (if strip (filter (\<lambda>ch. ch \<noteq> CHR '','') s) = [] \<or>
         strip (filter (\<lambda>ch. ch \<noteq> CHR '','') s) = ''nan''
      then ''0'' else strip (filter (\<lambda>ch. ch \<noteq> CHR '','') s))"
  by (simp add: clean_text_def astype_str_def Let_def)

lemma clean_column_commas:
  assumes "\<forall>s\<in>set ss. strip (filter (\<lambda>ch. ch \<noteq> CHR '','') s) \<noteq> [] \<and>
                    strip (filter (\<lambda>ch. ch \<noteq> CHR '','') s) \<noteq> ''nan''"
    and "map (\<lambda>s. p (strip (filter (\<lambda>ch. ch \<noteq> CHR '','') s))) ss = map Some vs"
  shows "clean_column p col (map Some ss) = Inr vs"
proof (rule clean_column_ok)
  have "map (\<lambda>c. p (clean_text c)) (map Some ss)
          = map (\<lambda>s. p (strip (filter (\<lambda>ch. ch \<noteq> CHR '','') s))) ss"
    using assms(1) by (simp add: clean_text_Some)
  with assms(2) show "map (\<lambda>c. p (clean_text c)) (map Some ss) = map Some vs" by simp
qed

lemma comma_cells:
  "strip (filter (\<lambda>ch. ch \<noteq> CHR '','') ''1,2,3'') = ''123''"
  "strip (filter (\<lambda>ch. ch \<noteq> CHR '','') '',45,'') = ''45''"
  "column_of comma_frame ''items'' = Inr [Some ''Fees'']"
  "column_of comma_frame ''debit'' = Inr (map Some [''1,2,3''])"
  "column_of comma_frame ''credit'' = Inr (map Some ['',45,''])"
  by code_simp+

lemma decimal_literal_45: "decimal_literal ''45'' = Some 45"
  by (simp add: decimal_literal_def unsigned_literal_def digit_val_def Let_def)

text \<open>
  C10. The text handed to the parser is the cell with every comma deleted, wherever the
  comma stands, and the surrounding whitespace stripped (\<^verbatim>\<open>0\<close> if nothing or \<^verbatim>\<open>nan\<close> is
  left). So two cells that agree once their commas are taken out clean to the same text,
  the cleaned text holds no comma, and every cell whose text without commas parses is
  accepted with the parsed value, in a column and in the cleaned table; no step looks at
  where the commas were. The cell \<^verbatim>\<open>1,2,3\<close> cleans to \<^verbatim>\<open>123\<close> and is accepted as the
  amount 123.
\<close>

theorem commas_deleted_everywhere:
  "clean_text (Some s) =
     (if strip (filter (\<lambda>ch. ch \<noteq> CHR '','') s) = [] \<or>
         strip (filter (\<lambda>ch. ch \<noteq> CHR '','') s) = ''nan''
      then ''0'' else strip (filter (\<lambda>ch. ch \<noteq> CHR '','') s))
   \<and> (filter (\<lambda>ch. ch \<noteq> CHR '','') s = filter (\<lambda>ch. ch \<noteq> CHR '','') s'
      \<longrightarrow> clean_text (Some s) = clean_text (Some s'))
   \<and> CHR '','' \<notin> set (clean_text c)
   \<and> (map (\<lambda>c. p (clean_text c)) cells = map Some vs \<longrightarrow> clean_column p col cells = Inr vs)
   \<and> ((\<forall>s\<in>set ss. strip (filter (\<lambda>ch. ch \<noteq> CHR '','') s) \<noteq> [] \<and>
                    strip (filter (\<lambda>ch. ch \<noteq> CHR '','') s) \<noteq> ''nan'') \<and>
        map (\<lambda>s. p (strip (filter (\<lambda>ch. ch \<noteq> CHR '','') s))) ss = map Some vs
        \<longrightarrow> clean_column p col (map Some ss) = Inr vs)
   \<and> (column_of df ''items'' = Inr its \<and> column_of df ''debit'' = Inr (map Some ds) \<and>
        column_of df ''credit'' = Inr (map Some cs) \<and>
        (\<forall>s\<in>set (ds @ cs). strip (filter (\<lambda>ch. ch \<noteq> CHR '','') s) \<noteq> [] \<and>
                    strip (filter (\<lambda>ch. ch \<noteq> CHR '','') s) \<noteq> ''nan'') \<and>
        map (\<lambda>s. p (strip (filter (\<lambda>ch. ch \<noteq> CHR '','') s))) ds = map Some dv \<and>
        map (\<lambda>s. p (strip (filter (\<lambda>ch. ch \<noteq> CHR '','') s))) cs = map Some cv
        \<longrightarrow> clean_numeric p df = Inr (zip_rows its dv cv))
   \<and> clean_text (Some ''1,2,3'') = ''123''
   \<and> clean_column decimal_literal ''debit'' [Some ''1,2,3''] = Inr [123]"
proof (intro conjI impI)
  show "clean_text (Some s) =
     (if strip (filter (\<lambda>ch. ch \<noteq> CHR '','') s) = [] \<or>
         strip (filter (\<lambda>ch. ch \<noteq> CHR '','') s) = ''nan''
      then ''0'' else strip (filter (\<lambda>ch. ch \<noteq> CHR '','') s))"
    by (rule clean_text_Some)
next
  assume "filter (\<lambda>ch. ch \<noteq> CHR '','') s = filter (\<lambda>ch. ch \<noteq> CHR '','') s'"
  then show "clean_text (Some s) = clean_text (Some s')"
    by (simp add: clean_text_def astype_str_def)
next
  show "CHR '','' \<notin> set (clean_text c)" by (rule no_comma_clean_text)
next
  assume "map (\<lambda>c. p (clean_text c)) cells = map Some vs"
  then show "clean_column p col cells = Inr vs" by (rule clean_column_ok)
next
  assume "(\<forall>s\<in>set ss. strip (filter (\<lambda>ch. ch \<noteq> CHR '','') s) \<noteq> [] \<and>
                    strip (filter (\<lambda>ch. ch \<noteq> CHR '','') s) \<noteq> ''nan'') \<and>
        map (\<lambda>s. p (strip (filter (\<lambda>ch. ch \<noteq> CHR '','') s))) ss = map Some vs"
  then show "clean_column p col (map Some ss) = Inr vs"
    by (intro clean_column_commas) simp_all
next
  assume a: "column_of df ''items'' = Inr its \<and> column_of df ''debit'' = Inr (map Some ds) \<and>
        column_of df ''credit'' = Inr (map Some cs) \<and>
        (\<forall>s\<in>set (ds @ cs). strip (filter (\<lambda>ch. ch \<noteq> CHR '','') s) \<noteq> [] \<and>
                    strip (filter (\<lambda>ch. ch \<noteq> CHR '','') s) \<noteq> ''nan'') \<and>
        map (\<lambda>s. p (strip (filter (\<lambda>ch. ch \<noteq> CHR '','') s))) ds = map Some dv \<and>
        map (\<lambda>s. p (strip (filter (\<lambda>ch. ch \<noteq> CHR '','') s))) cs = map Some cv"
  then have d: "clean_column p ''debit'' (map Some ds) = Inr dv"
    by (intro clean_column_commas) simp_all
  from a have c: "clean_column p ''credit'' (map Some cs) = Inr cv"
    by (intro clean_column_commas) simp_all
  from a d c show "clean_numeric p df = Inr (zip_rows its dv cv)"
    by (simp add: clean_numeric_def)
next
  show "clean_text (Some ''1,2,3'') = ''123''" by (rule clean_text_123)
next
  show "clean_column decimal_literal ''debit'' [Some ''1,2,3''] = Inr [123]"
    by (rule clean_column_ok) (simp add: clean_text_123 decimal_literal_demo)
qed

theorem commas_deleted_everywhere_witness:
  "filter (\<lambda>ch. ch \<noteq> CHR '','') ''1,2,3'' = filter (\<lambda>ch. ch \<noteq> CHR '','') ''12,3''
   \<and> clean_text (Some ''1,2,3'') = clean_text (Some ''12,3'')
   \<and> map (\<lambda>c. decimal_literal (clean_text c)) [Some ''1,2,3''] = map Some [123]
   \<and> clean_column decimal_literal ''credit'' [Some ''1,2,3''] = Inr [123]
   \<and> strip (filter (\<lambda>ch. ch \<noteq> CHR '','') ''1,2,3'') = ''123''
   \<and> strip (filter (\<lambda>ch. ch \<noteq> CHR '','') '',45,'') = ''45''
   \<and> map (\<lambda>s. decimal_literal (strip (filter (\<lambda>ch. ch \<noteq> CHR '','') s))) [''1,2,3'']
        = map Some [123]
   \<and> map (\<lambda>s. decimal_literal (strip (filter (\<lambda>ch. ch \<noteq> CHR '','') s))) ['',45,'']
        = map Some [45]
   \<and> column_of comma_frame ''items'' = Inr [Some ''Fees'']
   \<and> column_of comma_frame ''debit'' = Inr (map Some [''1,2,3''])
   \<and> column_of comma_frame ''credit'' = Inr (map Some ['',45,''])
   \<and> clean_numeric decimal_literal comma_frame =
        Inr [\<lparr>items = Some ''Fees'', debit = 123, credit = 45\<rparr>]"
proof -
  note t = commas_deleted_everywhere [where s = "''1,2,3''" and s' = "''12,3''"
      and p = decimal_literal and cells = "[Some ''1,2,3'']" and vs = "[123]" and col = "''credit''"
      and ss = "[''1,2,3'']" and df = comma_frame and its = "[Some ''Fees'']"
      and ds = "[''1,2,3'']" and cs = "['',45,'']" and dv = "[123]" and cv = "[45]"]
  have a: "filter (\<lambda>ch. ch \<noteq> CHR '','') ''1,2,3'' = filter (\<lambda>ch. ch \<noteq> CHR '','') ''12,3''"
    by simp
  from t a have b: "clean_text (Some ''1,2,3'') = clean_text (Some ''12,3'')" by blast
  have c: "map (\<lambda>c. decimal_literal (clean_text c)) [Some ''1,2,3''] = map Some [123]"
    by (simp add: clean_text_123 decimal_literal_demo)
  from t c have d: "clean_column decimal_literal ''credit'' [Some ''1,2,3''] = Inr [123]" by blast
  have e: "map (\<lambda>s. decimal_literal (strip (filter (\<lambda>ch. ch \<noteq> CHR '','') s))) [''1,2,3'']
        = map Some [123]"
    by (simp only: list.map comma_cells decimal_literal_demo)
  have f: "map (\<lambda>s. decimal_literal (strip (filter (\<lambda>ch. ch \<noteq> CHR '','') s))) ['',45,'']
        = map Some [45]"
    by (simp only: list.map comma_cells decimal_literal_45)
  have g: "\<forall>s\<in>set ([''1,2,3''] @ ['',45,'']).
             strip (filter (\<lambda>ch. ch \<noteq> CHR '','') s) \<noteq> [] \<and>
             strip (filter (\<lambda>ch. ch \<noteq> CHR '','') s) \<noteq> ''nan''"
    by (simp only: set_append set_simps ball_simps ball_Un comma_cells) simp
  from t comma_cells(3,4,5) g e f
  have "clean_numeric decimal_literal comma_frame = Inr (zip_rows [Some ''Fees''] [123] [45])"
    by blast
  then have h: "clean_numeric decimal_literal comma_frame =
        Inr [\<lparr>items = Some ''Fees'', debit = 123, credit = 45\<rparr>]" by simp
  from a b c d comma_cells e f h show ?thesis by (intro conjI)
qed


subsection \<open>Rejected and accepted amounts\<close>

lemma clean_table_abc: "clean_table (frame_env abc_frame) ''ledger.csv'' [] =
   Inl (HTTPException 400 ''Invalid numeric values in debit'')"
  by code_simp

lemma clean_table_refund: "clean_table (frame_env refund_frame) ''ledger.csv'' [] =
   Inr [\<lparr>items = Some ''Refund'', debit = - 5, credit = 0\<rparr>]"
  by code_simp

lemma upload_refund:
  "upload_csv (frame_env refund_frame) ''ledger.csv'' [] =
     Inr \<lparr>balance_status = ''Unbalanced: Total Debit = -5.00, Total Credit = 0.00'',
          anomalies = [], recommendations = ''Error: GEMINI_API_KEY not set''\<rparr>"
  by code_simp

lemma upload_abc:
  "upload_csv (frame_env abc_frame) ''ledger.csv'' [] =
     Inl (HTTPException 400 ''Invalid numeric values in debit'')"
  "upload_csv (frame_env abc_first_frame) ''ledger.csv'' [] =
     Inl (HTTPException 400 ''Invalid numeric values in debit'')"
  by code_simp+

lemma not_named:
  "\<not> contains ''Invalid numeric values in debit'' ''Rent''"
  "\<not> contains ''Invalid numeric values in debit'' ''Sales''"
  by code_simp+

lemma contains_self: "contains b b"
  by (cases b) (simp_all add: startswith_def)

lemma contains_suffix: "contains (a @ b) b"
  by (induction a) (simp_all add: contains_self)

lemma clean_column_total:
  "\<forall>c\<in>set cells. p (clean_text c) \<noteq> None \<Longrightarrow> \<exists>vs. clean_column p col cells = Inr vs"
  by (auto simp: clean_column_def Let_def list_ex_iff)

lemma column_of_length: "column_of df col = Inr cells \<Longrightarrow> length cells = length (rows df)"
  by (auto simp: column_of_def split: list.splits)

lemma zip_rows_maps:
  "length its = length ds \<Longrightarrow> length ds = length cs \<Longrightarrow>
     map items (zip_rows its ds cs) = its \<and> map debit (zip_rows its ds cs) = ds \<and>
     map credit (zip_rows its ds cs) = cs"
  by (induction its ds cs rule: list_induct3) simp_all

lemma column_cells_abc:
  "column_of abc_frame ''debit'' = Inr [Some ''0'', Some ''abc'']"
  "column_of bad_credit_frame ''debit'' = Inr [Some ''0'']"
  "column_of bad_credit_frame ''credit'' = Inr [Some ''12O'']"
  by code_simp+

lemma clean_text_cells:
  "clean_text (Some ''0'') = ''0''" "clean_text (Some ''abc'') = ''abc''"
  "clean_text (Some ''12O'') = ''12O''" "clean_text (Some '' , '') = ''0''"
  "strip (filter (\<lambda>ch. ch \<noteq> CHR '','') (astype_str (Some '' , ''))) = []"
  by code_simp+

lemma decimal_literal_bad: "decimal_literal ''12O'' = None"
  by (simp add: decimal_literal_def unsigned_literal_def digit_val_def Let_def)

text \<open>
  C5, as stated, at two concrete tables. In the first the debit cell \<^verbatim>\<open>abc\<close> stands in
  the row \<^verbatim>\<open>Rent\<close>, in the second in the row \<^verbatim>\<open>Sales\<close>. The handler answers both with
  the same client error, whose detail names the column and no row: the rows are only
  written to the log (line 75).
\<close>

theorem invalid_amount_row_counterexample:
  "upload_csv (frame_env abc_frame) ''ledger.csv'' [] =
     Inl (HTTPException 400 ''Invalid numeric values in debit'')
   \<and> upload_csv (frame_env abc_first_frame) ''ledger.csv'' [] =
     Inl (HTTPException 400 ''Invalid numeric values in debit'')
   \<and> \<not> contains ''Invalid numeric values in debit'' ''Rent''
   \<and> \<not> contains ''Invalid numeric values in debit'' ''Sales''"
  by (intro conjI upload_abc not_named)

text \<open>
  C5, amended. After commas and surrounding whitespace are removed, the empty text and
  the text \<^verbatim>\<open>nan\<close> become \<^verbatim>\<open>0\<close>, hence the amount zero; a cell whose cleaned text does
  not parse aborts the request with the client error 400 whose detail is
  \<^verbatim>\<open>Invalid numeric values in \<close> followed by the column, debit being checked before
  credit. The detail names the column; it does not name the row.
\<close>

theorem invalid_amount_names_column:
  "((strip (filter (\<lambda>ch. ch \<noteq> CHR '','') (astype_str c)) = [] \<or>
     strip (filter (\<lambda>ch. ch \<noteq> CHR '','') (astype_str c)) = ''nan'') \<and> p ''0'' = Some 0
      \<longrightarrow> clean_text c = ''0'' \<and> p (clean_text c) = Some 0)
   \<and> ((\<exists>c\<in>set cells. p (clean_text c) = None) \<longrightarrow>
        clean_column p col cells = Inl (HTTPException 400 (''Invalid numeric values in '' @ col)))
   \<and> contains (''Invalid numeric values in '' @ col) col
   \<and> (column_of df ''debit'' = Inr dcells \<and> (\<exists>c\<in>set dcells. p (clean_text c) = None) \<longrightarrow>
        clean_numeric p df = Inl (HTTPException 400 ''Invalid numeric values in debit''))
   \<and> (column_of df ''debit'' = Inr dcells \<and> (\<forall>c\<in>set dcells. p (clean_text c) \<noteq> None) \<and>
        column_of df ''credit'' = Inr ccells \<and> (\<exists>c\<in>set ccells. p (clean_text c) = None) \<longrightarrow>
        clean_numeric p df = Inl (HTTPException 400 ''Invalid numeric values in credit''))"
proof (intro conjI impI)
  assume a: "(strip (filter (\<lambda>ch. ch \<noteq> CHR '','') (astype_str c)) = [] \<or>
     strip (filter (\<lambda>ch. ch \<noteq> CHR '','') (astype_str c)) = ''nan'') \<and> p ''0'' = Some 0"
  then show t: "clean_text c = ''0''" by (auto simp: clean_text_def Let_def)
  from a show "p (clean_text c) = Some 0" unfolding t by simp
next
  assume "\<exists>c\<in>set cells. p (clean_text c) = None"
  then show "clean_column p col cells = Inl (HTTPException 400 (''Invalid numeric values in '' @ col))"
    by (rule clean_column_bad)
next
  show "contains (''Invalid numeric values in '' @ col) col" by (rule contains_suffix)
next
  assume a: "column_of df ''debit'' = Inr dcells \<and> (\<exists>c\<in>set dcells. p (clean_text c) = None)"
  then have "clean_column p ''debit'' dcells = Inl (HTTPException 400 (''Invalid numeric values in '' @ ''debit''))"
    by (intro clean_column_bad) simp
  with a show "clean_numeric p df = Inl (HTTPException 400 ''Invalid numeric values in debit'')"
    by (simp add: clean_numeric_def)
next
  assume a: "column_of df ''debit'' = Inr dcells \<and> (\<forall>c\<in>set dcells. p (clean_text c) \<noteq> None) \<and>
        column_of df ''credit'' = Inr ccells \<and> (\<exists>c\<in>set ccells. p (clean_text c) = None)"
  then obtain ds where ds: "clean_column p ''debit'' dcells = Inr ds"
    using clean_column_total [of dcells p "''debit''"] by blast
  from a have "clean_column p ''credit'' ccells = Inl (HTTPException 400 (''Invalid numeric values in '' @ ''credit''))"
    by (intro clean_column_bad) simp
  with a ds show "clean_numeric p df = Inl (HTTPException 400 ''Invalid numeric values in credit'')"
    by (simp add: clean_numeric_def)
qed

theorem invalid_amount_names_column_witness:
  "strip (filter (\<lambda>ch. ch \<noteq> CHR '','') (astype_str (Some '' , ''))) = []
   \<and> decimal_literal ''0'' = Some 0
   \<and> decimal_literal (clean_text (Some '' , '')) = Some 0
   \<and> decimal_literal (clean_text (Some ''abc'')) = None
   \<and> column_of abc_frame ''debit'' = Inr [Some ''0'', Some ''abc'']
   \<and> clean_numeric decimal_literal abc_frame =
        Inl (HTTPException 400 ''Invalid numeric values in debit'')
   \<and> column_of bad_credit_frame ''debit'' = Inr [Some ''0'']
   \<and> decimal_literal (clean_text (Some ''0'')) = Some 0
   \<and> column_of bad_credit_frame ''credit'' = Inr [Some ''12O'']
   \<and> decimal_literal (clean_text (Some ''12O'')) = None
   \<and> clean_numeric decimal_literal bad_credit_frame =
        Inl (HTTPException 400 ''Invalid numeric values in credit'')"
  using invalid_amount_names_column [of "Some '' , ''" decimal_literal "[Some ''0'', Some ''abc'']"
      "''debit''" abc_frame "[Some ''0'', Some ''abc'']" "[]"]
    invalid_amount_names_column [of "Some '' , ''" decimal_literal "[Some ''0'', Some ''abc'']"
      "''debit''" bad_credit_frame "[Some ''0'']" "[Some ''12O'']"]
  by (simp add: column_cells_abc clean_text_cells decimal_literal_demo decimal_literal_bad)

text \<open>
  C7, as stated, at a concrete table. The debit cell \<^verbatim>\<open>-5\<close> parses, no step of the
  handler compares an amount with zero, and the cleaned table carries the debit -5 on
  to the balance check and the detector.
\<close>

theorem negative_amount_counterexample:
  "clean_table (frame_env refund_frame) ''ledger.csv'' [] =
     Inr [\<lparr>items = Some ''Refund'', debit = - 5, credit = 0\<rparr>]
   \<and> debit \<lparr>items = Some ''Refund'', debit = - 5, credit = 0\<rparr> < 0
   \<and> upload_csv (frame_env refund_frame) ''ledger.csv'' [] =
     Inr \<lparr>balance_status = ''Unbalanced: Total Debit = -5.00, Total Credit = 0.00'',
          anomalies = [], recommendations = ''Error: GEMINI_API_KEY not set''\<rparr>"
  by (intro conjI clean_table_refund upload_refund) simp

text \<open>
  C7, amended. A cleaned table holds one row for every row that passed the filter, with
  the parsed value of every debit and credit cell; if any debit or credit cell fails to
  parse, the request ends with the client error and no table at all is produced, and an
  error of the cleaning stage is the answer of the handler. The sign of an amount is
  not checked.
\<close>

theorem coercion_failure_rejects_table:
  "(clean_numeric p df = Inr ledger \<longrightarrow>
      (\<exists>its dcells ccells.
          column_of df ''items'' = Inr its \<and> column_of df ''debit'' = Inr dcells \<and>
          column_of df ''credit'' = Inr ccells \<and>
          map items ledger = its \<and>
          map (\<lambda>r. Some (debit r)) ledger = map (\<lambda>c. p (clean_text c)) dcells \<and>
          map (\<lambda>r. Some (credit r)) ledger = map (\<lambda>c. p (clean_text c)) ccells \<and>
          length ledger = length (rows df)))
   \<and> (column_of df ''debit'' = Inr dcells \<and> column_of df ''credit'' = Inr ccells \<and>
        (\<exists>c\<in>set (dcells @ ccells). p (clean_text c) = None) \<longrightarrow>
        (\<exists>col. clean_numeric p df =
                 Inl (HTTPException 400 (''Invalid numeric values in '' @ col))))
   \<and> (clean_table e filename content = Inl err \<longrightarrow> upload_csv e filename content = Inl err)"
proof (intro conjI impI)
  assume a: "clean_numeric p df = Inr ledger"
  then obtain dcells ds ccells cs its where
    d: "column_of df ''debit'' = Inr dcells" "clean_column p ''debit'' dcells = Inr ds" and
    c: "column_of df ''credit'' = Inr ccells" "clean_column p ''credit'' ccells = Inr cs" and
    i: "column_of df ''items'' = Inr its" and l: "ledger = zip_rows its ds cs"
    by (auto simp: clean_numeric_def split: sum.splits)
  have md: "map (\<lambda>c. p (clean_text c)) dcells = map Some ds" by (rule clean_column_Inr [OF d(2)])
  have mc: "map (\<lambda>c. p (clean_text c)) ccells = map Some cs" by (rule clean_column_Inr [OF c(2)])
  have ld: "length ds = length (rows df)"
    using column_of_length [OF d(1)] arg_cong [OF md, of length] by simp
  have lc: "length cs = length (rows df)"
    using column_of_length [OF c(1)] arg_cong [OF mc, of length] by simp
  have li: "length its = length (rows df)" by (rule column_of_length [OF i])
  have z: "map items ledger = its \<and> map debit ledger = ds \<and> map credit ledger = cs"
    unfolding l by (rule zip_rows_maps) (simp_all add: ld lc li)
  have "map (\<lambda>r. Some (debit r)) ledger = map Some (map debit ledger)" by simp
  with z have sd: "map (\<lambda>r. Some (debit r)) ledger = map Some ds" by simp
  have "map (\<lambda>r. Some (credit r)) ledger = map Some (map credit ledger)" by simp
  with z have sc: "map (\<lambda>r. Some (credit r)) ledger = map Some cs" by simp
  have len: "length ledger = length (rows df)"
    using z li by (metis length_map)
  show "\<exists>its dcells ccells.
          column_of df ''items'' = Inr its \<and> column_of df ''debit'' = Inr dcells \<and>
          column_of df ''credit'' = Inr ccells \<and>
          map items ledger = its \<and>
          map (\<lambda>r. Some (debit r)) ledger = map (\<lambda>c. p (clean_text c)) dcells \<and>
          map (\<lambda>r. Some (credit r)) ledger = map (\<lambda>c. p (clean_text c)) ccells \<and>
          length ledger = length (rows df)"
    using i d(1) c(1) z sd sc md mc len by auto
next
  assume a: "column_of df ''debit'' = Inr dcells \<and> column_of df ''credit'' = Inr ccells \<and>
        (\<exists>c\<in>set (dcells @ ccells). p (clean_text c) = None)"
  show "\<exists>col. clean_numeric p df = Inl (HTTPException 400 (''Invalid numeric values in '' @ col))"
  proof (cases "\<exists>c\<in>set dcells. p (clean_text c) = None")
    case True
    then have "clean_column p ''debit'' dcells =
        Inl (HTTPException 400 (''Invalid numeric values in '' @ ''debit''))"
      by (rule clean_column_bad)
    with a have "clean_numeric p df = Inl (HTTPException 400 (''Invalid numeric values in '' @ ''debit''))"
      by (simp add: clean_numeric_def)
    then show ?thesis by blast
  next
    case False
    then have "\<forall>c\<in>set dcells. p (clean_text c) \<noteq> None" by simp
    then have "\<exists>vs. clean_column p ''debit'' dcells = Inr vs" by (rule clean_column_total)
    then obtain ds where ds: "clean_column p ''debit'' dcells = Inr ds" ..
    from False a have "\<exists>c\<in>set ccells. p (clean_text c) = None" by auto
    then have "clean_column p ''credit'' ccells =
        Inl (HTTPException 400 (''Invalid numeric values in '' @ ''credit''))"
      by (rule clean_column_bad)
    with a ds have "clean_numeric p df = Inl (HTTPException 400 (''Invalid numeric values in '' @ ''credit''))"
      by (simp add: clean_numeric_def)
    then show ?thesis by blast
  qed
next
  assume "clean_table e filename content = Inl err"
  then show "upload_csv e filename content = Inl err" by (simp add: upload_csv_def)
qed

lemma column_credit_abc: "column_of abc_frame ''credit'' = Inr [Some ''120'', Some ''0'']"
  by code_simp

theorem coercion_failure_rejects_table_witness:
  "clean_numeric decimal_literal demo_filtered = Inr demo_ledger
   \<and> length demo_ledger = length (rows demo_filtered)
   \<and> column_of abc_frame ''debit'' = Inr [Some ''0'', Some ''abc'']
   \<and> column_of abc_frame ''credit'' = Inr [Some ''120'', Some ''0'']
   \<and> decimal_literal (clean_text (Some ''abc'')) = None
   \<and> (\<exists>col. clean_numeric decimal_literal abc_frame =
              Inl (HTTPException 400 (''Invalid numeric values in '' @ col)))
   \<and> clean_table (frame_env abc_frame) ''ledger.csv'' [] =
        Inl (HTTPException 400 ''Invalid numeric values in debit'')
   \<and> upload_csv (frame_env abc_frame) ''ledger.csv'' [] =
        Inl (HTTPException 400 ''Invalid numeric values in debit'')"
proof -
  note t = coercion_failure_rejects_table [of decimal_literal demo_filtered demo_ledger
      "[Some ''0'', Some ''abc'']" "[Some ''120'', Some ''0'']" "frame_env abc_frame"
      "''ledger.csv''" "[]" "HTTPException 400 ''Invalid numeric values in debit''"]
  note u = coercion_failure_rejects_table [of decimal_literal abc_frame demo_ledger
      "[Some ''0'', Some ''abc'']" "[Some ''120'', Some ''0'']" "frame_env abc_frame"
      "''ledger.csv''" "[]" "HTTPException 400 ''Invalid numeric values in debit''"]
  have a: "clean_numeric decimal_literal demo_filtered = Inr demo_ledger"
    by (rule clean_numeric_demo)
  from t a have b: "length demo_ledger = length (rows demo_filtered)" by blast
  have c: "column_of abc_frame ''debit'' = Inr [Some ''0'', Some ''abc'']"
    by (rule column_cells_abc)
  have d: "column_of abc_frame ''credit'' = Inr [Some ''120'', Some ''0'']"
    by (rule column_credit_abc)
  have e0: "decimal_literal (clean_text (Some ''abc'')) = None"
    by (simp add: clean_text_cells decimal_literal_demo)
  then have e: "\<exists>c\<in>set ([Some ''0'', Some ''abc''] @ [Some ''120'', Some ''0'']).
          decimal_literal (clean_text c) = None" by simp
  from u c d e have f: "\<exists>col. clean_numeric decimal_literal abc_frame =
              Inl (HTTPException 400 (''Invalid numeric values in '' @ col))" by blast
  have g: "clean_table (frame_env abc_frame) ''ledger.csv'' [] =
        Inl (HTTPException 400 ''Invalid numeric values in debit'')"
    by (rule clean_table_abc)
  from t g have h: "upload_csv (frame_env abc_frame) ''ledger.csv'' [] =
        Inl (HTTPException 400 ''Invalid numeric values in debit'')" by blast
  from a b c d e0 f g h show ?thesis by (intro conjI)
qed

subsection \<open>The table without rows\<close>

lemma detect_empty:
  "detect model [] =
     (case model (5 / 100) [] of
        Inl m \<Rightarrow> Inl (Unhandled m)
      | Inr scores \<Rightarrow> if scores \<noteq> [] then Inl (Unhandled ''ValueError'') else Inr [])"
  by (simp add: detect_def contamination_def significant_def split: sum.splits)

lemma clean_table_empty:
  "clean_table (frame_env empty_frame) ''ledger.csv'' [] = Inr []"
  "clean_table (frame_env footer_frame) ''ledger.csv'' [] = Inr []"
  by code_simp+

lemma balance_message_empty:
  "balance_message sequential_sum [] = ''Balanced: Total Debit = 0.00, Total Credit = 0.00''"
  by (simp add: balance_message_def is_balanced_def total_debit_def total_credit_def
        sequential_sum_def double_of_demo double_of_cent
        format_2f_def round_half_even_def Let_def digits.simps char_of_decimal)

text \<open>
  C2 at a concrete input: a file with the header only, and a file whose single row is a
  footer. Cleaning gives the table without rows, and the balance status of that table
  is balanced with both totals zero. The handler has no branch for the empty table
  around the model: the guard of line 93 only picks the contamination, and line 95 fits
  the model on the empty sample. An estimator that rejects an empty sample, as the one
  of scikit-learn does, raises there, and no handler catches it.
\<close>

theorem upload_csv_empty_table_raises:
  "clean_table (frame_env empty_frame) ''ledger.csv'' [] = Inr []
   \<and> balance_message sequential_sum [] = ''Balanced: Total Debit = 0.00, Total Credit = 0.00''
   \<and> fit_predict (frame_env empty_frame) (contamination 0) [] = Inl ''ValueError''
   \<and> upload_csv (frame_env empty_frame) ''ledger.csv'' [] = Inl (Unhandled ''ValueError'')
   \<and> upload_csv (frame_env footer_frame) ''ledger.csv'' [] = Inl (Unhandled ''ValueError'')"
  by (simp add: clean_table_empty balance_message_empty upload_csv_def detect_empty)
     (simp add: frame_env_def demo_env_def magnitude_model_def contamination_def)

subsection \<open>Schema normalisation\<close>

lemma positions_snoc:
  "positions (xs @ [x]) c = positions xs c @ (if x = c then [length xs] else [])"
proof -
  have "filter (\<lambda>i. (xs @ [x]) ! i = c) [0..<length xs] = filter (\<lambda>i. xs ! i = c) [0..<length xs]"
    by (rule filter_cong) (simp_all add: nth_append)
  then show ?thesis by (simp add: positions_def)
qed

lemma length_positions: "length (positions cols c) = count_list cols c"
proof (induction cols rule: rev_induct)
  case Nil
  show ?case by (simp add: positions_def)
next
  case (snoc x xs)
  then show ?case by (simp add: positions_snoc)
qed

lemma positions_valid: "i \<in> set (positions cols c) \<Longrightarrow> i < length cols \<and> cols ! i = c"
  by (simp add: positions_def)

lemma positions_single:
  assumes "count_list cols c = 1"
  shows "\<exists>i<length cols. positions cols c = [i] \<and> cols ! i = c"
proof -
  from assms have "length (positions cols c) = 1" by (simp add: length_positions)
  then obtain i where i: "positions cols c = [i]"
    by (cases "positions cols c") simp_all
  then have "i \<in> set (positions cols c)" by simp
  then have "i < length cols \<and> cols ! i = c" by (rule positions_valid)
  with i show ?thesis by blast
qed

lemma available_columns_complete:
  "length (filter (\<lambda>col. col \<in> set cols) expected_columns) \<noteq> 3
     \<longleftrightarrow> \<not> set expected_columns \<subseteq> set cols"
  by (simp add: expected_columns_def)

lemma schema_detail: "join '', '' expected_columns = ''items, debit, credit''"
  by (simp add: expected_columns_def)

lemma schema_detail_names:
  "contains ''CSV must have columns: items, debit, credit'' ''items''"
  "contains ''CSV must have columns: items, debit, credit'' ''debit''"
  "contains ''CSV must have columns: items, debit, credit'' ''credit''"
  by code_simp+

lemma select_duplicate:
  "select_required duplicate_frame =
     Inr \<lparr>columns = [''items'', ''debit'', ''debit'', ''credit''],
          rows = [[Some ''Rent'', Some ''800'', Some ''800'', Some ''0'']]\<rparr>"
  by code_simp

lemma upload_duplicate:
  "upload_csv (frame_env duplicate_frame) ''ledger.csv'' [] = Inl (Unhandled ''AttributeError'')"
  by code_simp

text \<open>
  C6 at a concrete table. The labels \<^verbatim>\<open>Debit\<close> and \<^verbatim>\<open>debit \<close> are two columns of the
  parsed table and the same label once lowercased and trimmed. All three required labels
  are present, so the check of line 59 passes, and the selection of line 62, which its
  comment calls selecting only the required columns, keeps both columns labelled
  \<^verbatim>\<open>debit\<close>: the table has four columns, not the three required ones, and the cleaning of
  the debit column then raises an exception that nothing catches.
\<close>

theorem select_required_duplicate_columns:
  "select_required duplicate_frame =
     Inr \<lparr>columns = [''items'', ''debit'', ''debit'', ''credit''],
          rows = [[Some ''Rent'', Some ''800'', Some ''800'', Some ''0'']]\<rparr>
   \<and> upload_csv (frame_env duplicate_frame) ''ledger.csv'' [] = Inl (Unhandled ''AttributeError'')"
  by (intro conjI select_duplicate upload_duplicate)

text \<open>
  On every other table the selection does what is claimed. After lowercasing and
  trimming the labels: if one of items, debit and credit is absent, the handler fails
  with the client error 400 whose detail lists the three required columns; if all are
  present it selects by label; and if each of the three labels is carried by exactly one
  column, the result has exactly the columns items, debit, credit, every row of the
  table in its place reduced to its cells under those three columns, other columns
  dropped.
\<close>

theorem select_required_columns:
  "(\<not> set expected_columns \<subseteq> set (columns (normalize_columns df)) \<longrightarrow>
      select_required df =
        Inl (HTTPException 400 ''CSV must have columns: items, debit, credit'') \<and>
      (\<forall>c\<in>set expected_columns.
          contains ''CSV must have columns: items, debit, credit'' c))
   \<and> (set expected_columns \<subseteq> set (columns (normalize_columns df)) \<longrightarrow>
        select_required df = Inr (select_columns (normalize_columns df) expected_columns))
   \<and> ((\<forall>c\<in>set expected_columns. count_list (columns (normalize_columns df)) c = 1) \<longrightarrow>
        (\<exists>i j k. i < length (columns df) \<and> j < length (columns df) \<and> k < length (columns df) \<and>
           strip (lower (columns df ! i)) = ''items'' \<and>
           strip (lower (columns df ! j)) = ''debit'' \<and>
           strip (lower (columns df ! k)) = ''credit'' \<and>
           select_required df =
             Inr \<lparr>columns = [''items'', ''debit'', ''credit''],
                  rows = map (\<lambda>r. [r ! i, r ! j, r ! k]) (rows df)\<rparr>))"
proof (intro conjI impI)
  assume "\<not> set expected_columns \<subseteq> set (columns (normalize_columns df))"
  then show "select_required df =
        Inl (HTTPException 400 ''CSV must have columns: items, debit, credit'')"
    unfolding select_required_def Let_def available_columns_complete schema_detail by simp
next
  show "\<forall>c\<in>set expected_columns.
          contains ''CSV must have columns: items, debit, credit'' c"
    unfolding expected_columns_def using schema_detail_names by simp
next
  assume "set expected_columns \<subseteq> set (columns (normalize_columns df))"
  then show "select_required df = Inr (select_columns (normalize_columns df) expected_columns)"
    unfolding select_required_def Let_def available_columns_complete by simp
next
  let ?cols = "columns (normalize_columns df)"
  assume a: "\<forall>c\<in>set expected_columns. count_list ?cols c = 1"
  have n: "length ?cols = length (columns df)"
          "\<And>m. m < length (columns df) \<Longrightarrow> ?cols ! m = strip (lower (columns df ! m))"
    by (simp_all add: normalize_columns_def)
  from a obtain i where i: "i < length ?cols" "positions ?cols ''items'' = [i]" "?cols ! i = ''items''"
    using positions_single [of ?cols "''items''"] by (auto simp: expected_columns_def)
  from a obtain j where j: "j < length ?cols" "positions ?cols ''debit'' = [j]" "?cols ! j = ''debit''"
    using positions_single [of ?cols "''debit''"] by (auto simp: expected_columns_def)
  from a obtain k where k: "k < length ?cols" "positions ?cols ''credit'' = [k]" "?cols ! k = ''credit''"
    using positions_single [of ?cols "''credit''"] by (auto simp: expected_columns_def)
  have sub: "set expected_columns \<subseteq> set ?cols"
    using i j k by (auto simp: expected_columns_def in_set_conv_nth)
  have sel: "select_columns (normalize_columns df) expected_columns =
      \<lparr>columns = [''items'', ''debit'', ''credit''],
       rows = map (\<lambda>r. [r ! i, r ! j, r ! k]) (rows (normalize_columns df))\<rparr>"
    by (simp add: select_columns_def Let_def expected_columns_def i j k)
  have r: "rows (normalize_columns df) = rows df" by (simp add: normalize_columns_def)
  have sr: "select_required df = Inr \<lparr>columns = [''items'', ''debit'', ''credit''],
                  rows = map (\<lambda>r. [r ! i, r ! j, r ! k]) (rows df)\<rparr>"
    using sub unfolding select_required_def Let_def available_columns_complete sel r by simp
  have i': "i < length (columns df)" "strip (lower (columns df ! i)) = ''items''"
    using i n(1) n(2) [of i] by simp_all
  have j': "j < length (columns df)" "strip (lower (columns df ! j)) = ''debit''"
    using j n(1) n(2) [of j] by simp_all
  have k': "k < length (columns df)" "strip (lower (columns df ! k)) = ''credit''"
    using k n(1) n(2) [of k] by simp_all
  show "\<exists>i j k. i < length (columns df) \<and> j < length (columns df) \<and> k < length (columns df) \<and>
           strip (lower (columns df ! i)) = ''items'' \<and>
           strip (lower (columns df ! j)) = ''debit'' \<and>
           strip (lower (columns df ! k)) = ''credit'' \<and>
           select_required df =
             Inr \<lparr>columns = [''items'', ''debit'', ''credit''],
                  rows = map (\<lambda>r. [r ! i, r ! j, r ! k]) (rows df)\<rparr>"
    by (intro exI [of _ i] exI [of _ j] exI [of _ k] conjI i' j' k' sr)
qed

lemma normalized_columns:
  "columns (normalize_columns missing_frame) = [''items'', ''debit'', ''memo'']"
  "columns (normalize_columns demo_frame) = [''items'', ''debit'', ''memo'', ''credit'']"
  by code_simp+

theorem select_required_columns_witness:
  "\<not> set expected_columns \<subseteq> set (columns (normalize_columns missing_frame))
   \<and> select_required missing_frame =
        Inl (HTTPException 400 ''CSV must have columns: items, debit, credit'')
   \<and> set expected_columns \<subseteq> set (columns (normalize_columns demo_frame))
   \<and> count_list (columns (normalize_columns demo_frame)) ''items'' = 1
   \<and> count_list (columns (normalize_columns demo_frame)) ''debit'' = 1
   \<and> count_list (columns (normalize_columns demo_frame)) ''credit'' = 1
   \<and> select_required demo_frame =
        Inr (select_columns (normalize_columns demo_frame) expected_columns)
   \<and> select_required demo_frame =
        Inr \<lparr>columns = [''items'', ''debit'', ''credit''],
          rows = [[Some ''Land purchase'', Some ''15,000'', None],
              [Some ''Rent'', Some ''800'', Some ''''],
              [Some ''Sales'', Some ''50'', Some ''12,000.00''],
              [Some ''Bank'', Some '' 0 '', Some ''3800''],
              [Some ''TOTAL'', Some ''15,850'', Some ''15,800''],
              [None, Some ''1'', Some ''1'']]\<rparr>"
proof -
  note m = select_required_columns [of missing_frame]
  note d = select_required_columns [of demo_frame]
  have a: "\<not> set expected_columns \<subseteq> set (columns (normalize_columns missing_frame))"
    by (simp add: normalized_columns expected_columns_def)
  from m a have b: "select_required missing_frame =
        Inl (HTTPException 400 ''CSV must have columns: items, debit, credit'')" by blast
  have c: "set expected_columns \<subseteq> set (columns (normalize_columns demo_frame))"
    by (simp add: normalized_columns expected_columns_def)
  have e: "\<forall>c\<in>set expected_columns. count_list (columns (normalize_columns demo_frame)) c = 1"
    by (simp add: normalized_columns expected_columns_def)
  from d c have f: "select_required demo_frame =
        Inr (select_columns (normalize_columns demo_frame) expected_columns)" by blast
  have e': "count_list (columns (normalize_columns demo_frame)) ''items'' = 1"
      "count_list (columns (normalize_columns demo_frame)) ''debit'' = 1"
      "count_list (columns (normalize_columns demo_frame)) ''credit'' = 1"
    by (simp_all add: normalized_columns)
  from d e have "\<exists>i j k. select_required demo_frame =
             Inr \<lparr>columns = [''items'', ''debit'', ''credit''],
                  rows = map (\<lambda>r. [r ! i, r ! j, r ! k]) (rows demo_frame)\<rparr>" by blast
  from a b c e' f select_demo show ?thesis by (intro conjI)
qed

end
